theory Spec2Isabelle
  imports Complex_Main
begin

section \<open>Data model of \<^verbatim>\<open>src/main.py\<close>\<close>

text \<open>
  The script works on numpy arrays. A two-dimensional float array is modelled as the list
  of its rows, a row as a list of reals (float64 arithmetic is idealised as real
  arithmetic: the properties below are about which values reach which call, not about
  rounding). A face array is the list of its index rows. The column count of an array
  without rows is not represented.
\<close>

type_synonym varray = "real list list"
type_synonym iarray = "int list list"

text \<open>
  Everything the script imports and calls but does not define is a field of the
  environment: the \<^verbatim>\<open>igl\<close> functions, the three stages imported from
  \<^verbatim>\<open>utilities\<close>, and the folder of the running script
  (\<^verbatim>\<open>os.path.dirname(os.path.abspath(__file__))\<close>). The calls are
  taken to return; what a library raises inside itself is not part of \<^verbatim>\<open>main.py\<close>.
\<close>

record env =
  script_folder :: string
  read_obj :: "string \<Rightarrow> varray \<times> varray \<times> varray \<times> iarray \<times> iarray \<times> iarray"
  remove_unreferenced :: "varray \<Rightarrow> iarray \<Rightarrow> varray \<times> iarray \<times> int list \<times> int list"
  per_vertex_normals :: "varray \<Rightarrow> iarray \<Rightarrow> varray"
  bounding_box_diagonal :: "varray \<Rightarrow> real"
  find_matches_closest_surface ::
    "varray \<Rightarrow> iarray \<Rightarrow> varray \<Rightarrow> varray \<Rightarrow> iarray \<Rightarrow> varray \<Rightarrow> varray \<Rightarrow> real \<Rightarrow> int
      \<Rightarrow> bool list \<times> varray"
  inpaint :: "varray \<Rightarrow> iarray \<Rightarrow> varray \<Rightarrow> bool list \<Rightarrow> varray \<times> bool"
  smooth :: "varray \<Rightarrow> iarray \<Rightarrow> varray \<Rightarrow> bool list \<Rightarrow> real \<Rightarrow> int \<Rightarrow> real
      \<Rightarrow> varray \<times> bool list"

text \<open>The values handed to polyscope as per-vertex scalar quantities.\<close>

datatype scalar_data = Flags "bool list" | Values "real list"

text \<open>What \<^verbatim>\<open>json.dump\<close> receives: nested lists of numbers and one dict, in insertion order.\<close>

datatype json = JFloat real | JInt int | JList "json list" | JDict "(string \<times> json) list"

text \<open>
  The observable steps of a run, in the order the script performs them. A call of one of
  the three stages is recorded with the arguments it is given.
\<close>

datatype event =
    PsInit
  | Print string
  | RegisterSurfaceMesh string varray iarray
  | AddVectorQuantity string string varray
  | AddScalarQuantity string string scalar_data
  | CallMatcher varray iarray varray varray iarray varray varray real int
  | CallInpaint varray iarray varray "bool list"
  | CallSmooth varray iarray varray "bool list" real int real
  | WriteFile string json
  | PsShow

datatype py_error = IndexError

datatype outcome = Returned | Exited int | Raised py_error

section \<open>\<^verbatim>\<open>load_mesh\<close>\<close>

definition load_mesh :: "env \<Rightarrow> string \<Rightarrow> (varray \<times> iarray \<times> varray \<times> varray) \<times> event list" where
  "load_mesh e mesh_path =
     (case read_obj e mesh_path of (v, vt, vn, f, ft, fnn) \<Rightarrow>
        let vertices_original = v in
        (case remove_unreferenced e v f of (v', f', _, _) \<Rightarrow>
           let printed = (if length vertices_original \<noteq> length v'
                          then [Print ''[Warning] Mesh has unreferenced vertices which were removed'']
                          else []);
               normals = per_vertex_normals e v' f'
           in ((v', f', normals, vt), printed)))"

section \<open>\<^verbatim>\<open>main\<close>\<close>

text \<open>\<^verbatim>\<open>os.path.join\<close> of two components on a POSIX system.\<close>

definition os_path_join :: "string \<Rightarrow> string \<Rightarrow> string" where
  "os_path_join a b =
     (if b \<noteq> [] \<and> hd b = CHR ''/'' then b
      else if a = [] \<or> last a = CHR ''/'' then a @ b
      else a @ ''/'' @ b)"

text \<open>
  \<^verbatim>\<open>a[:, j]\<close>: column \<open>j\<close> of a two-dimensional array; numpy raises
  \<^verbatim>\<open>IndexError\<close> when the array has no such column.
\<close>

definition has_column :: "nat \<Rightarrow> varray \<Rightarrow> bool" where
  "has_column j a = list_all (\<lambda>row. j < length row) a"

definition column :: "nat \<Rightarrow> varray \<Rightarrow> py_error + real list" where
  "column j a =
     (if has_column j a then Inr (map (\<lambda>row. row ! j) a) else Inl IndexError)"

text \<open>\<^verbatim>\<open>tolist()\<close> of a float array and of an index array.\<close>

definition tolist_float :: "varray \<Rightarrow> json" where
  "tolist_float a = JList (map (\<lambda>row. JList (map JFloat row)) a)"

definition tolist_int :: "iarray \<Rightarrow> json" where
  "tolist_int a = JList (map (\<lambda>row. JList (map JInt row)) a)"

text \<open>
  The part of \<^verbatim>\<open>main\<close> after the check of \<^verbatim>\<open>success\<close> (lines 95 to 135):
  the two bone columns are shown, \<^verbatim>\<open>smooth\<close> runs, its results are shown, the
  mesh is written and the viewer opens. The argument \<open>tr\<close> is what has happened so far.
\<close>

definition after_inpaint ::
  "env \<Rightarrow> event list \<Rightarrow> string \<Rightarrow> string \<Rightarrow> varray \<Rightarrow> iarray \<Rightarrow> varray \<Rightarrow> varray
     \<Rightarrow> bool list \<Rightarrow> varray \<Rightarrow> real \<Rightarrow> event list \<times> outcome" where
  "after_inpaint e tr current_folder output_file vertices_2 faces_2 normals_2 uvs_2
       matched inpainted_weights distance_threshold =
     (case column 0 inpainted_weights of
        Inl err \<Rightarrow> (tr, Raised err)
      | Inr bone1 \<Rightarrow>
     (case column 1 inpainted_weights of
        Inl err \<Rightarrow> (tr @ [AddScalarQuantity ''TargetMesh'' ''Bone1'' (Values bone1)], Raised err)
      | Inr bone2 \<Rightarrow>
     (let tr1 = tr @ [AddScalarQuantity ''TargetMesh'' ''Bone1'' (Values bone1),
                      AddScalarQuantity ''TargetMesh'' ''Bone2'' (Values bone2)];
          num_smooth_iter_steps = 10;
          smooth_alpha = 2 / 10
      in (case smooth e vertices_2 faces_2 inpainted_weights matched distance_threshold
                 num_smooth_iter_steps smooth_alpha of
            (smoothed_inpainted_weights, vertex_ids_to_smooth) \<Rightarrow>
      (let tr2 = tr1 @ [CallSmooth vertices_2 faces_2 inpainted_weights matched
                          distance_threshold num_smooth_iter_steps smooth_alpha,
                        AddScalarQuantity ''TargetMesh'' ''VertexIDsToSmooth''
                          (Flags vertex_ids_to_smooth)]
       in (case column 0 smoothed_inpainted_weights of
             Inl err \<Rightarrow> (tr2, Raised err)
           | Inr sbone1 \<Rightarrow>
          (case column 1 smoothed_inpainted_weights of
             Inl err \<Rightarrow>
               (tr2 @ [AddScalarQuantity ''TargetMesh'' ''SmoothedBone1'' (Values sbone1)],
                Raised err)
           | Inr sbone2 \<Rightarrow>
          (let output_file_path = os_path_join current_folder output_file;
               mesh_data = JDict [(''vertices'', tolist_float vertices_2),
                                  (''faces'', tolist_int faces_2),
                                  (''normals'', tolist_float normals_2),
                                  (''uvs'', tolist_float uvs_2)]
           in (tr2 @ [AddScalarQuantity ''TargetMesh'' ''SmoothedBone1'' (Values sbone1),
                      AddScalarQuantity ''TargetMesh'' ''SmoothedBone2'' (Values sbone2),
                      WriteFile output_file_path mesh_data,
                      PsShow],
               Returned)))))))))"

text \<open>
  \<^verbatim>\<open>main(source_mesh, target_mesh, output_file)\<close>: the run as the list of its
  events and the way it ends. \<^verbatim>\<open>exit(0)\<close> ends the run with \<open>Exited 0\<close>.
  The literals \<^verbatim>\<open>0.05\<close>, \<^verbatim>\<open>0.3\<close>, \<^verbatim>\<open>0.7\<close> and \<^verbatim>\<open>0.2\<close> are
  written as the fractions \<open>5 / 100\<close>, \<open>3 / 10\<close>, \<open>7 / 10\<close> and \<open>2 / 10\<close>.
\<close>

definition main :: "env \<Rightarrow> string \<Rightarrow> string \<Rightarrow> string \<Rightarrow> event list \<times> outcome" where
  "main e source_mesh target_mesh output_file =
     (let current_folder = script_folder e;
          source_mesh_path = os_path_join current_folder source_mesh
      in (case load_mesh e source_mesh_path of
            ((vertices_1, faces_1, normals_1, uvs_1), printed_1) \<Rightarrow>
      (let target_mesh_path = os_path_join current_folder target_mesh
       in (case load_mesh e target_mesh_path of
            ((vertices_2, faces_2, normals_2, uvs_2), printed_2) \<Rightarrow>
      (let skin_weights = replicate (length vertices_1) [3 / 10, 7 / 10];
           tr1 = [PsInit] @ printed_1 @ printed_2 @
                 [RegisterSurfaceMesh ''SourceMesh'' vertices_1 faces_1,
                  RegisterSurfaceMesh ''TargetMesh'' vertices_2 faces_2,
                  AddVectorQuantity ''SourceMesh'' ''Normals'' normals_1,
                  AddVectorQuantity ''TargetMesh'' ''Normals'' normals_2];
           distance_threshold = 5 / 100 * bounding_box_diagonal e vertices_2;
           distance_threshold_squared = distance_threshold * distance_threshold;
           angle_threshold_degrees = 30
       in (case find_matches_closest_surface e vertices_1 faces_1 normals_1
                  vertices_2 faces_2 normals_2 skin_weights
                  distance_threshold_squared angle_threshold_degrees of
             (matched, interpolated_skin_weights) \<Rightarrow>
       (let tr2 = tr1 @ [CallMatcher vertices_1 faces_1 normals_1 vertices_2 faces_2 normals_2
                           skin_weights distance_threshold_squared angle_threshold_degrees,
                         AddScalarQuantity ''TargetMesh'' ''Matched'' (Flags matched)]
        in (case inpaint e vertices_2 faces_2 interpolated_skin_weights matched of
              (inpainted_weights, success) \<Rightarrow>
        (let tr3 = tr2 @ [CallInpaint vertices_2 faces_2 interpolated_skin_weights matched]
         in if \<not> success
            then (tr3 @ [Print ''[Error] Inpainting failed.''], Exited 0)
            else after_inpaint e tr3 current_folder output_file vertices_2 faces_2 normals_2
                   uvs_2 matched inpainted_weights distance_threshold)))))))))"

section \<open>Reading a run\<close>

text \<open>The calls of the three stages among the events of a run, in order.\<close>

fun is_stage_call :: "event \<Rightarrow> bool" where
  "is_stage_call (CallMatcher v1 f1 n1 v2 f2 n2 w d a) = True"
| "is_stage_call (CallInpaint v f w m) = True"
| "is_stage_call (CallSmooth v f w m d n a) = True"
| "is_stage_call _ = False"

definition stage_calls :: "event list \<Rightarrow> event list" where
  "stage_calls tr = filter is_stage_call tr"

fun is_smooth_call :: "event \<Rightarrow> bool" where
  "is_smooth_call (CallSmooth v f w m d n a) = True"
| "is_smooth_call _ = False"

fun is_write :: "event \<Rightarrow> bool" where
  "is_write (WriteFile p j) = True"
| "is_write _ = False"

text \<open>The files written during a run: path and content.\<close>

fun file_of :: "event \<Rightarrow> (string \<times> json) list" where
  "file_of (WriteFile p j) = [(p, j)]"
| "file_of _ = []"

definition written_files :: "event list \<Rightarrow> (string \<times> json) list" where
  "written_files tr = concat (map file_of tr)"

text \<open>The two thresholds given to the matcher, and the three settings given to the smoother.\<close>

fun gates_of :: "event \<Rightarrow> (real \<times> int) list" where
  "gates_of (CallMatcher v1 f1 n1 v2 f2 n2 w d a) = [(d, a)]"
| "gates_of _ = []"

definition matcher_gates :: "event list \<Rightarrow> (real \<times> int) list" where
  "matcher_gates tr = concat (map gates_of tr)"

fun settings_of :: "event \<Rightarrow> (real \<times> int \<times> real) list" where
  "settings_of (CallSmooth v f w m d n a) = [(d, n, a)]"
| "settings_of _ = []"

definition smooth_settings :: "event list \<Rightarrow> (real \<times> int \<times> real) list" where
  "smooth_settings tr = concat (map settings_of tr)"

text \<open>The meshes given to the matcher: source and target, vertices and faces.\<close>

fun meshes_of :: "event \<Rightarrow> ((varray \<times> iarray) \<times> (varray \<times> iarray)) list" where
  "meshes_of (CallMatcher v1 f1 n1 v2 f2 n2 w d a) = [((v1, f1), (v2, f2))]"
| "meshes_of _ = []"

definition matcher_meshes :: "event list \<Rightarrow> ((varray \<times> iarray) \<times> (varray \<times> iarray)) list" where
  "matcher_meshes tr = concat (map meshes_of tr)"

section \<open>The mesh invariant\<close>

text \<open>
  Every index of every face is a position of the vertex array, and every vertex is an
  index of some face.
\<close>

definition faces_in_bounds :: "varray \<Rightarrow> iarray \<Rightarrow> bool" where
  "faces_in_bounds v f = list_all (\<lambda>face. list_all (\<lambda>i. 0 \<le> i \<and> i < int (length v)) face) f"

definition referenced :: "iarray \<Rightarrow> nat \<Rightarrow> bool" where
  "referenced f j = list_ex (\<lambda>face. int j \<in> set face) f"

definition fully_referenced :: "varray \<Rightarrow> iarray \<Rightarrow> bool" where
  "fully_referenced v f = list_all (referenced f) [0..<length v]"

definition mesh_invariant :: "varray \<Rightarrow> iarray \<Rightarrow> bool" where
  "mesh_invariant v f = (faces_in_bounds v f \<and> fully_referenced v f)"

text \<open>
  What \<^verbatim>\<open>load_mesh\<close> relies on from \<^verbatim>\<open>igl\<close>: on faces that index the
  vertex array, \<^verbatim>\<open>remove_unreferenced\<close> returns vertices and faces that satisfy the
  invariant; \<^verbatim>\<open>per_vertex_normals\<close> returns one row for each vertex; and the
  faces \<^verbatim>\<open>read_obj\<close> reads from a file index the vertices it reads.
\<close>

definition remove_unreferenced_ok :: "env \<Rightarrow> bool" where
  "remove_unreferenced_ok e =
     (\<forall>v f. faces_in_bounds v f \<longrightarrow>
        (case remove_unreferenced e v f of (v', f', _, _) \<Rightarrow> mesh_invariant v' f'))"

definition per_vertex_normals_ok :: "env \<Rightarrow> bool" where
  "per_vertex_normals_ok e = (\<forall>v f. length (per_vertex_normals e v f) = length v)"

definition file_faces_in_bounds :: "env \<Rightarrow> string \<Rightarrow> bool" where
  "file_faces_in_bounds e mesh_path =
     (case read_obj e mesh_path of (v, vt, vn, f, ft, fnn) \<Rightarrow> faces_in_bounds v f)"

section \<open>An environment to run the script on\<close>

text \<open>
  An executable stand-in for \<^verbatim>\<open>igl.remove_unreferenced\<close>, after its documentation:
  the kept vertices \<open>J\<close> are the referenced ones in their order, \<open>I\<close> sends an old index
  to its new position (\<open>-1\<close> for a removed vertex), and the faces are renumbered by \<open>I\<close>.
\<close>

fun index_of :: "nat \<Rightarrow> nat list \<Rightarrow> nat" where
  "index_of x [] = 0"
| "index_of x (y # ys) = (if x = y then 0 else Suc (index_of x ys))"

definition remove_unreferenced_ref :: "varray \<Rightarrow> iarray \<Rightarrow> varray \<times> iarray \<times> int list \<times> int list" where
  "remove_unreferenced_ref v f =
     (let J = filter (referenced f) [0..<length v];
          I = map (\<lambda>i. if referenced f i then int (index_of i J) else - 1) [0..<length v];
          NV = map (\<lambda>j. v ! j) J;
          NF = map (map (\<lambda>i. I ! nat i)) f
      in (NV, NF, I, map int J))"

text \<open>
  Two small files: the source has four vertices, of which the second is in no face; the
  target is one triangle. The stand-ins for the three stages mark every vertex matched,
  succeed when some vertex is matched, and leave the weights as they are.
\<close>

definition demo_read_obj :: "string \<Rightarrow> varray \<times> varray \<times> varray \<times> iarray \<times> iarray \<times> iarray" where
  "demo_read_obj p =
     (if p = ''/repo/src/source.obj''
      then ([[0, 0, 0], [9, 9, 9], [4, 0, 0], [0, 4, 0]],
            [[0, 0], [1, 1], [1, 0], [0, 1]], [], [[0, 2, 3]], [[0, 2, 3]], [])
      else ([[0, 0, 0], [2, 0, 0], [0, 2, 0]],
            [[0, 0], [1, 0], [0, 1]], [], [[0, 1, 2]], [[0, 1, 2]], []))"

definition demo_env :: env where
  "demo_env =
     \<lparr> script_folder = ''/repo/src'',
       read_obj = demo_read_obj,
       remove_unreferenced = remove_unreferenced_ref,
       per_vertex_normals = (\<lambda>v f. map (\<lambda>p. [0, 0, 1]) v),
       bounding_box_diagonal = (\<lambda>v. 20),
       find_matches_closest_surface =
         (\<lambda>v1 f1 n1 v2 f2 n2 w d a. (map (\<lambda>p. True) v2, map (\<lambda>p. [3 / 10, 7 / 10]) v2)),
       inpaint = (\<lambda>v f w m. (w, list_ex (\<lambda>b. b) m)),
       smooth = (\<lambda>v f w m d n a. (w, map Not m)) \<rparr>"

text \<open>The same environment with an inpainter that reports failure.\<close>

definition failing_env :: env where
  "failing_env = demo_env \<lparr> inpaint := (\<lambda>v f w m. (w, False)) \<rparr>"

section \<open>The matcher, from the specification\<close>

text \<open>
  Modelled from the spec: \<^verbatim>\<open>find_matches_closest_surface\<close> is defined in
  \<^verbatim>\<open>utilities.py\<close>, which is not among the sources; \<^verbatim>\<open>main.py\<close> only calls it. The
  definitions of this section follow sections 3 and 4.1 of the specification
  (\<^verbatim>\<open>match(sourceMesh, sourceNormals, sourceWeights, targetMesh, targetNormals,
  squaredDistanceThreshold, angleThresholdDegrees)\<close>). The nearest-point search over the
  source triangles is a parameter \<open>nearest\<close>, which reports the triangle and the barycentric
  coordinates of the closest point: the specification allows a bounding-volume hierarchy or
  a linear scan and fixes neither. Numbers are reals.
\<close>

type_synonym vec = "real list"

definition dot :: "vec \<Rightarrow> vec \<Rightarrow> real" where
  "dot a b = sum_list (map (\<lambda>(x, y). x * y) (zip a b))"

definition squared_norm_diff :: "vec \<Rightarrow> vec \<Rightarrow> real" where
  "squared_norm_diff a b = sum_list (map (\<lambda>(x, y). (x - y) * (x - y)) (zip a b))"

definition bary_mix :: "real \<times> real \<times> real \<Rightarrow> vec \<Rightarrow> vec \<Rightarrow> vec \<Rightarrow> vec" where
  "bary_mix bc p q r =
     (case bc of (a, b, c) \<Rightarrow> map (\<lambda>(x, y, z). a * x + b * y + c * z) (zip p (zip q r)))"

text \<open>
  Modelled from the spec: the angle of step 2,
  \<^verbatim>\<open>arccos(clamp(dot(n_target, n_source_interp), -1, 1))\<close> in degrees.
\<close>

definition angle_degrees :: "vec \<Rightarrow> vec \<Rightarrow> real" where
  "angle_degrees n_target n_source = arccos (max (- 1) (min 1 (dot n_target n_source))) * 180 / pi"

text \<open>
  Modelled from the spec: the Correspondence of section 3, the result of one closest-point
  query: the nearest point, its barycentric coordinates, the index of the source triangle,
  the squared distance, and the source normal interpolated at the point.
\<close>

record correspondence =
  closest_point :: vec
  barycentric :: "real \<times> real \<times> real"
  triangle :: nat
  squared_distance :: real
  source_normal :: vec

type_synonym search = "varray \<Rightarrow> iarray \<Rightarrow> vec \<Rightarrow> nat \<times> (real \<times> real \<times> real)"

definition corner :: "'a list \<Rightarrow> iarray \<Rightarrow> nat \<Rightarrow> nat \<Rightarrow> 'a" where
  "corner xs faces t k = xs ! nat ((faces ! t) ! k)"

definition correspond :: "search \<Rightarrow> varray \<Rightarrow> iarray \<Rightarrow> varray \<Rightarrow> vec \<Rightarrow> correspondence" where
  "correspond nearest sv sf sn v =
     (case nearest sv sf v of (t, bc) \<Rightarrow>
        let p = bary_mix bc (corner sv sf t 0) (corner sv sf t 1) (corner sv sf t 2)
        in \<lparr> closest_point = p,
             barycentric = bc,
             triangle = t,
             squared_distance = squared_norm_diff v p,
             source_normal = bary_mix bc (corner sn sf t 0) (corner sn sf t 1) (corner sn sf t 2) \<rparr>)"

text \<open>
  Modelled from the spec: steps 3 and 4 for one target vertex with its normal. The vertex is
  matched iff the squared distance is at most the distance threshold and the angle is at
  most the angle threshold; a matched vertex gets the source weights interpolated with the
  barycentric coordinates of the closest point, an unmatched one gets no weight.
\<close>

definition match_vertex ::
  "search \<Rightarrow> varray \<Rightarrow> iarray \<Rightarrow> varray \<Rightarrow> varray \<Rightarrow> real \<Rightarrow> real \<Rightarrow> vec \<times> vec \<Rightarrow> bool \<times> vec option" where
  "match_vertex nearest sv sf sn sw squaredDistanceThreshold angleThresholdDegrees vn =
     (case vn of (v, n) \<Rightarrow>
        let c = correspond nearest sv sf sn v;
            matched = (squared_distance c \<le> squaredDistanceThreshold \<and>
                       angle_degrees n (source_normal c) \<le> angleThresholdDegrees)
        in (matched,
            if matched
            then Some (bary_mix (barycentric c) (corner sw sf (triangle c) 0)
                         (corner sw sf (triangle c) 1) (corner sw sf (triangle c) 2))
            else None))"

text \<open>
  Modelled from the spec: the contract of section 7, whose violation fails at once: the
  arrays of one mesh have the same length, the faces are triangles whose indices are within
  the source vertices, and the search reports a triangle of the source mesh.
\<close>

datatype match_error = ContractViolation

definition match_contract :: "search \<Rightarrow> varray \<Rightarrow> iarray \<Rightarrow> varray \<Rightarrow> varray \<Rightarrow> varray \<Rightarrow> varray \<Rightarrow> bool" where
  "match_contract nearest sv sf sn sw tv tn =
     (length sn = length sv \<and> length sw = length sv \<and> length tn = length tv \<and>
      faces_in_bounds sv sf \<and> list_all (\<lambda>face. length face = 3) sf \<and>
      list_all (\<lambda>v. fst (nearest sv sf v) < length sf) tv)"

definition match_spec ::
  "search \<Rightarrow> varray \<Rightarrow> iarray \<Rightarrow> varray \<Rightarrow> varray \<Rightarrow> varray \<Rightarrow> varray \<Rightarrow> real \<Rightarrow> real
     \<Rightarrow> match_error + (bool list \<times> vec option list)" where
  "match_spec nearest sv sf sn sw tv tn squaredDistanceThreshold angleThresholdDegrees =
     (if \<not> match_contract nearest sv sf sn sw tv tn then Inl ContractViolation
      else let results = map (match_vertex nearest sv sf sn sw squaredDistanceThreshold
                                angleThresholdDegrees) (zip tv tn)
           in Inr (map fst results, map snd results))"

text \<open>
  A source mesh of one triangle in the plane \<open>z = 0\<close> with the weights of
  \<^verbatim>\<open>main.py\<close>, and four target vertices whose closest point on the triangle is its
  first corner, which is what the stand-in for the search reports.
\<close>

definition first_corner :: search where
  "first_corner sv sf v = (0, (1, 0, 0))"

definition tri_vertices :: varray where
  "tri_vertices = [[0, 0, 0], [1, 0, 0], [0, 1, 0]]"

definition tri_normals :: varray where
  "tri_normals = [[0, 0, 1], [0, 0, 1], [0, 0, 1]]"

definition tri_weights :: varray where
  "tri_weights = [[3 / 10, 7 / 10], [3 / 10, 7 / 10], [3 / 10, 7 / 10]]"

definition probe_vertices :: varray where
  "probe_vertices = [[0, 0, 0], [0, 0, 1], [- 1, - 1, 0], [0, 0, 0]]"

definition probe_normals :: varray where
  "probe_normals = [[0, 0, 1], [0, 0, 1], [0, 0, 1], [1, 0, 0]]"

section \<open>The inpainter, from the specification\<close>

text \<open>
  Modelled from the spec: \<^verbatim>\<open>inpaint\<close> is defined in \<^verbatim>\<open>utilities.py\<close>, which is not
  among the sources; \<^verbatim>\<open>main.py\<close> only calls it. The definitions of this section follow
  section 4.2 of the specification
  (\<^verbatim>\<open>inpaint(targetMesh, provisionalWeights, matchedFlags)\<close>) and the lifecycle of
  section 3. The provisional weight of a vertex is a vector for a matched vertex and
  undefined (\<open>None\<close>) for an unmatched one, as the matcher leaves it. The linear solver is a
  parameter \<open>solve\<close>: it gets the rows of the system and returns a weight vector for every
  vertex index, or \<open>None\<close> when it does not converge; the specification allows a direct or
  an iterative solver and fixes neither. Numbers are reals, so that a weight vector is
  finite when it is defined.
\<close>

text \<open>
  Modelled from the spec: one row of the system for each target vertex, a fixed (Dirichlet)
  value for a matched vertex, and for an unmatched vertex the Laplacian condition that its
  weight is the average over its neighbours in the mesh graph, which the row lists.
\<close>

datatype row = Dirichlet vec | Laplacian "nat list"

definition neighbours :: "iarray \<Rightarrow> nat \<Rightarrow> nat list" where
  "neighbours tf v =
     remdups (filter (\<lambda>u. u \<noteq> v) (map nat (concat (filter (\<lambda>face. int v \<in> set face) tf))))"

definition build_system :: "iarray \<Rightarrow> vec option list \<Rightarrow> bool list \<Rightarrow> row list" where
  "build_system tf provisionalWeights matchedFlags =
     map (\<lambda>v. if matchedFlags ! v then Dirichlet (the (provisionalWeights ! v))
              else Laplacian (neighbours tf v))
       [0..<length matchedFlags]"

type_synonym solver = "row list \<Rightarrow> (nat \<Rightarrow> vec) option"

text \<open>
  Modelled from the spec: the first failure condition, a connected component of the target
  mesh without a matched vertex. Starting from the matched vertices, \<open>spread\<close> marks in
  each round the neighbours of the marked vertices; after as many rounds as there are
  vertices, every vertex is marked iff every component has a matched vertex.
\<close>

fun spread :: "iarray \<Rightarrow> nat \<Rightarrow> bool list \<Rightarrow> bool list" where
  "spread tf 0 marked = marked"
| "spread tf (Suc k) marked =
     spread tf k (map (\<lambda>v. marked ! v \<or> list_ex (\<lambda>u. marked ! u) (neighbours tf v))
                    [0..<length marked])"

definition every_component_anchored :: "iarray \<Rightarrow> bool list \<Rightarrow> bool" where
  "every_component_anchored tf matchedFlags =
     list_all (\<lambda>b. b) (spread tf (length matchedFlags) matchedFlags)"

text \<open>
  Modelled from the spec: the contract of section 7: the weights and the flags have one
  entry for each vertex, the faces index the vertices, and a matched vertex has a
  provisional weight.
\<close>

definition inpaint_contract :: "varray \<Rightarrow> iarray \<Rightarrow> vec option list \<Rightarrow> bool list \<Rightarrow> bool" where
  "inpaint_contract tv tf provisionalWeights matchedFlags =
     (length provisionalWeights = length tv \<and> length matchedFlags = length tv \<and>
      faces_in_bounds tv tf \<and>
      list_all (\<lambda>v. matchedFlags ! v \<longrightarrow> provisionalWeights ! v \<noteq> None) [0..<length tv])"

text \<open>
  Modelled from the spec: the inpainter. It fails, with \<open>success = False\<close> and not with an
  error, when a component has no matched vertex or the solver does not converge; the
  weights are then returned as they came. On success the entry of every unmatched vertex is
  overwritten with the solved value and the entry of a matched vertex is left as it is.
\<close>

definition inpaint_spec ::
  "solver \<Rightarrow> varray \<Rightarrow> iarray \<Rightarrow> vec option list \<Rightarrow> bool list
     \<Rightarrow> match_error + (vec option list \<times> bool)" where
  "inpaint_spec solve tv tf provisionalWeights matchedFlags =
     (if \<not> inpaint_contract tv tf provisionalWeights matchedFlags then Inl ContractViolation
      else if \<not> every_component_anchored tf matchedFlags then Inr (provisionalWeights, False)
      else case solve (build_system tf provisionalWeights matchedFlags) of
             None \<Rightarrow> Inr (provisionalWeights, False)
           | Some x \<Rightarrow>
               Inr (map (\<lambda>v. if matchedFlags ! v then provisionalWeights ! v else Some (x v))
                      [0..<length tv],
                    True))"

text \<open>
  A target mesh of two triangles that share an edge, with the vertex opposite to the first
  triangle unmatched, and a stand-in for the solver that gives every vertex the weights of
  \<^verbatim>\<open>main.py\<close>, which solve the system when all fixed values are these weights.
\<close>

definition quad_vertices :: varray where
  "quad_vertices = [[0, 0, 0], [1, 0, 0], [0, 1, 0], [1, 1, 0]]"

definition quad_faces :: iarray where
  "quad_faces = [[0, 1, 2], [1, 3, 2]]"

definition quad_provisional :: "vec option list" where
  "quad_provisional = [Some [3 / 10, 7 / 10], Some [3 / 10, 7 / 10], Some [3 / 10, 7 / 10], None]"

definition quad_matched :: "bool list" where
  "quad_matched = [True, True, True, False]"

definition constant_solver :: solver where
  "constant_solver rows = Some (\<lambda>v. [3 / 10, 7 / 10])"

section \<open>Auxiliary facts about a run\<close>

lemma load_mesh_printed:
  "load_mesh e p = (r, pr) \<Longrightarrow>
   pr = [] \<or> pr = [Print ''[Warning] Mesh has unreferenced vertices which were removed'']"
  by (auto simp add: load_mesh_def Let_def split: prod.splits if_splits)

lemma main_failed:
  assumes "load_mesh e (os_path_join (script_folder e) source_mesh) = ((V1, F1, N1, U1), p1)"
      and "load_mesh e (os_path_join (script_folder e) target_mesh) = ((V2, F2, N2, U2), p2)"
      and "find_matches_closest_surface e V1 F1 N1 V2 F2 N2 (replicate (length V1) [3 / 10, 7 / 10])
             (5 / 100 * bounding_box_diagonal e V2 * (5 / 100 * bounding_box_diagonal e V2)) 30
           = (matched, pw)"
      and "inpaint e V2 F2 pw matched = (iw, False)"
  shows "main e source_mesh target_mesh output_file =
     ((PsInit # p1 @ p2 @
        [RegisterSurfaceMesh ''SourceMesh'' V1 F1,
         RegisterSurfaceMesh ''TargetMesh'' V2 F2,
         AddVectorQuantity ''SourceMesh'' ''Normals'' N1,
         AddVectorQuantity ''TargetMesh'' ''Normals'' N2,
         CallMatcher V1 F1 N1 V2 F2 N2 (replicate (length V1) [3 / 10, 7 / 10])
           (5 / 100 * bounding_box_diagonal e V2 * (5 / 100 * bounding_box_diagonal e V2)) 30,
         AddScalarQuantity ''TargetMesh'' ''Matched'' (Flags matched),
         CallInpaint V2 F2 pw matched]) @ [Print ''[Error] Inpainting failed.''], Exited 0)"
  unfolding main_def Let_def using assms by simp

lemma main_succeeded:
  assumes "load_mesh e (os_path_join (script_folder e) source_mesh) = ((V1, F1, N1, U1), p1)"
      and "load_mesh e (os_path_join (script_folder e) target_mesh) = ((V2, F2, N2, U2), p2)"
      and "find_matches_closest_surface e V1 F1 N1 V2 F2 N2 (replicate (length V1) [3 / 10, 7 / 10])
             (5 / 100 * bounding_box_diagonal e V2 * (5 / 100 * bounding_box_diagonal e V2)) 30
           = (matched, pw)"
      and "inpaint e V2 F2 pw matched = (iw, True)"
  shows "main e source_mesh target_mesh output_file =
     after_inpaint e
       (PsInit # p1 @ p2 @
        [RegisterSurfaceMesh ''SourceMesh'' V1 F1,
         RegisterSurfaceMesh ''TargetMesh'' V2 F2,
         AddVectorQuantity ''SourceMesh'' ''Normals'' N1,
         AddVectorQuantity ''TargetMesh'' ''Normals'' N2,
         CallMatcher V1 F1 N1 V2 F2 N2 (replicate (length V1) [3 / 10, 7 / 10])
           (5 / 100 * bounding_box_diagonal e V2 * (5 / 100 * bounding_box_diagonal e V2)) 30,
         AddScalarQuantity ''TargetMesh'' ''Matched'' (Flags matched),
         CallInpaint V2 F2 pw matched])
       (script_folder e) output_file V2 F2 N2 U2 matched iw
       (5 / 100 * bounding_box_diagonal e V2)"
  unfolding main_def Let_def using assms by simp

lemma after_inpaint_stage_calls:
  "stage_calls (fst (after_inpaint e tr cf out V2 F2 N2 U2 m iw dt)) =
     stage_calls tr @
     (if has_column 0 iw \<and> has_column 1 iw
      then [CallSmooth V2 F2 iw m dt 10 (2 / 10)] else [])"
  unfolding after_inpaint_def Let_def stage_calls_def column_def
  by (simp split: prod.splits)

lemma after_inpaint_written:
  "written_files (fst (after_inpaint e tr cf out V2 F2 N2 U2 m iw dt)) =
     written_files tr @
     (if snd (after_inpaint e tr cf out V2 F2 N2 U2 m iw dt) = Returned
      then [(os_path_join cf out,
             JDict [(''vertices'', tolist_float V2), (''faces'', tolist_int F2),
                    (''normals'', tolist_float N2), (''uvs'', tolist_float U2)])]
      else [])"
  unfolding after_inpaint_def Let_def written_files_def column_def
  by (simp split: prod.splits)

lemma after_inpaint_outcome:
  "snd (after_inpaint e tr cf out V2 F2 N2 U2 m iw dt) \<noteq> Exited k"
  unfolding after_inpaint_def Let_def column_def
  by (simp split: prod.splits)

lemma after_inpaint_returned:
  "snd (after_inpaint e tr cf out V2 F2 N2 U2 m iw dt) = Returned \<Longrightarrow>
   has_column 0 iw \<and> has_column 1 iw"
  unfolding after_inpaint_def Let_def column_def
  by (cases "has_column 0 iw"; cases "has_column 1 iw") simp_all

lemma main_stage_calls:
  assumes "load_mesh e (os_path_join (script_folder e) source_mesh) = ((V1, F1, N1, U1), p1)"
      and "load_mesh e (os_path_join (script_folder e) target_mesh) = ((V2, F2, N2, U2), p2)"
      and "find_matches_closest_surface e V1 F1 N1 V2 F2 N2 (replicate (length V1) [3 / 10, 7 / 10])
             (5 / 100 * bounding_box_diagonal e V2 * (5 / 100 * bounding_box_diagonal e V2)) 30
           = (matched, pw)"
      and "inpaint e V2 F2 pw matched = (iw, ok)"
  shows "stage_calls (fst (main e source_mesh target_mesh output_file)) =
     [CallMatcher V1 F1 N1 V2 F2 N2 (replicate (length V1) [3 / 10, 7 / 10])
        (5 / 100 * bounding_box_diagonal e V2 * (5 / 100 * bounding_box_diagonal e V2)) 30,
      CallInpaint V2 F2 pw matched] @
     (if ok \<and> has_column 0 iw \<and> has_column 1 iw
      then [CallSmooth V2 F2 iw matched (5 / 100 * bounding_box_diagonal e V2) 10 (2 / 10)]
      else [])"
proof -
  have p1: "filter is_stage_call p1 = []"
    using load_mesh_printed [OF assms(1)] by auto
  have p2: "filter is_stage_call p2 = []"
    using load_mesh_printed [OF assms(2)] by auto
  show ?thesis
  proof (cases ok)
    case False
    with assms(4) have i: "inpaint e V2 F2 pw matched = (iw, False)" by simp
    show ?thesis
      using False
      by (simp add: main_failed [OF assms(1-3) i] stage_calls_def p1 p2)
  next
    case True
    with assms(4) have i: "inpaint e V2 F2 pw matched = (iw, True)" by simp
    show ?thesis
      using True
      by (simp only: main_succeeded [OF assms(1-3) i] after_inpaint_stage_calls)
         (simp add: stage_calls_def p1 p2)
  qed
qed

lemma load_mesh_cong:
  "read_obj e' = read_obj e \<Longrightarrow> remove_unreferenced e' = remove_unreferenced e \<Longrightarrow>
   per_vertex_normals e' = per_vertex_normals e \<Longrightarrow> load_mesh e' p = load_mesh e p"
  by (simp add: load_mesh_def)

lemma printed_no_file:
  "load_mesh e p = (r, pr) \<Longrightarrow> concat (map file_of pr) = []"
  by (drule load_mesh_printed) auto

lemma printed_plain:
  "load_mesh e p = (r, pr) \<Longrightarrow> list_all (\<lambda>ev. \<not> is_smooth_call ev \<and> \<not> is_write ev) pr"
  by (drule load_mesh_printed) auto

lemma smooth_settings_stage_calls: "smooth_settings (stage_calls tr) = smooth_settings tr"
proof (induction tr)
  case Nil
  show ?case by (simp add: stage_calls_def)
next
  case (Cons ev tr)
  then show ?case by (cases ev) (simp_all add: stage_calls_def smooth_settings_def)
qed

lemma matcher_gates_stage_calls: "matcher_gates (stage_calls tr) = matcher_gates tr"
proof (induction tr)
  case Nil
  show ?case by (simp add: stage_calls_def)
next
  case (Cons ev tr)
  then show ?case by (cases ev) (simp_all add: stage_calls_def matcher_gates_def)
qed

lemma matcher_meshes_stage_calls: "matcher_meshes (stage_calls tr) = matcher_meshes tr"
proof (induction tr)
  case Nil
  show ?case by (simp add: stage_calls_def)
next
  case (Cons ev tr)
  then show ?case by (cases ev) (simp_all add: stage_calls_def matcher_meshes_def)
qed

lemma main_returned:
  assumes "load_mesh e (os_path_join (script_folder e) source_mesh) = ((V1, F1, N1, U1), p1)"
      and "load_mesh e (os_path_join (script_folder e) target_mesh) = ((V2, F2, N2, U2), p2)"
      and "find_matches_closest_surface e V1 F1 N1 V2 F2 N2 (replicate (length V1) [3 / 10, 7 / 10])
             (5 / 100 * bounding_box_diagonal e V2 * (5 / 100 * bounding_box_diagonal e V2)) 30
           = (matched, pw)"
      and "inpaint e V2 F2 pw matched = (iw, ok)"
      and "snd (main e source_mesh target_mesh output_file) = Returned"
  shows "ok \<and> has_column 0 iw \<and> has_column 1 iw"
proof (cases ok)
  case False
  with assms(4) have i: "inpaint e V2 F2 pw matched = (iw, False)" by simp
  from assms(5) show ?thesis by (simp add: main_failed [OF assms(1-3) i])
next
  case True
  with assms(4) have i: "inpaint e V2 F2 pw matched = (iw, True)" by simp
  from assms(5) have "has_column 0 iw \<and> has_column 1 iw"
    unfolding main_succeeded [OF assms(1-3) i] by (rule after_inpaint_returned)
  with True show ?thesis by simp
qed

lemma main_written:
  assumes tgt: "load_mesh e (os_path_join (script_folder e) target_mesh) = ((V2, F2, N2, U2), p2)"
  shows "written_files (fst (main e source_mesh target_mesh output_file)) =
     (if snd (main e source_mesh target_mesh output_file) = Returned
      then [(os_path_join (script_folder e) output_file,
             JDict [(''vertices'', tolist_float V2), (''faces'', tolist_int F2),
                    (''normals'', tolist_float N2), (''uvs'', tolist_float U2)])]
      else [])"
proof -
  obtain V1 F1 N1 U1 p1 where
    src: "load_mesh e (os_path_join (script_folder e) source_mesh) = ((V1, F1, N1, U1), p1)"
    by (cases "load_mesh e (os_path_join (script_folder e) source_mesh)") auto
  obtain matched pw where
    m: "find_matches_closest_surface e V1 F1 N1 V2 F2 N2 (replicate (length V1) [3 / 10, 7 / 10])
             (5 / 100 * bounding_box_diagonal e V2 * (5 / 100 * bounding_box_diagonal e V2)) 30
           = (matched, pw)"
    by (cases "find_matches_closest_surface e V1 F1 N1 V2 F2 N2 (replicate (length V1) [3 / 10, 7 / 10])
             (5 / 100 * bounding_box_diagonal e V2 * (5 / 100 * bounding_box_diagonal e V2)) 30") auto
  obtain iw ok where i: "inpaint e V2 F2 pw matched = (iw, ok)"
    by (cases "inpaint e V2 F2 pw matched") auto
  note f1 = printed_no_file [OF src] and f2 = printed_no_file [OF tgt]
  show ?thesis
  proof (cases ok)
    case False
    with i have i': "inpaint e V2 F2 pw matched = (iw, False)" by simp
    show ?thesis
      by (simp add: main_failed [OF src tgt m i'] written_files_def f1 f2)
  next
    case True
    with i have i': "inpaint e V2 F2 pw matched = (iw, True)" by simp
    show ?thesis
      unfolding main_succeeded [OF src tgt m i'] after_inpaint_written
      by (simp add: written_files_def f1 f2)
  qed
qed

lemma after_inpaint_ok:
  assumes "column 0 iw = Inr b1" and "column 1 iw = Inr b2"
      and "smooth e V2 F2 iw m dt 10 (2 / 10) = (sw, ids)"
      and "column 0 sw = Inr s1" and "column 1 sw = Inr s2"
  shows "after_inpaint e tr cf out V2 F2 N2 U2 m iw dt =
     (tr @ [AddScalarQuantity ''TargetMesh'' ''Bone1'' (Values b1),
            AddScalarQuantity ''TargetMesh'' ''Bone2'' (Values b2),
            CallSmooth V2 F2 iw m dt 10 (2 / 10),
            AddScalarQuantity ''TargetMesh'' ''VertexIDsToSmooth'' (Flags ids),
            AddScalarQuantity ''TargetMesh'' ''SmoothedBone1'' (Values s1),
            AddScalarQuantity ''TargetMesh'' ''SmoothedBone2'' (Values s2),
            WriteFile (os_path_join cf out)
              (JDict [(''vertices'', tolist_float V2), (''faces'', tolist_int F2),
                      (''normals'', tolist_float N2), (''uvs'', tolist_float U2)]),
            PsShow],
      Returned)"
  unfolding after_inpaint_def Let_def using assms by simp

lemma run_values:
  obtains V1 F1 N1 U1 p1 V2 F2 N2 U2 p2 matched pw iw ok where
    "load_mesh e (os_path_join (script_folder e) source_mesh) = ((V1, F1, N1, U1), p1)"
    "load_mesh e (os_path_join (script_folder e) target_mesh) = ((V2, F2, N2, U2), p2)"
    "find_matches_closest_surface e V1 F1 N1 V2 F2 N2 (replicate (length V1) [3 / 10, 7 / 10])
       (5 / 100 * bounding_box_diagonal e V2 * (5 / 100 * bounding_box_diagonal e V2)) 30
     = (matched, pw)"
    "inpaint e V2 F2 pw matched = (iw, ok)"
proof -
  obtain V1 F1 N1 U1 p1 where
    src: "load_mesh e (os_path_join (script_folder e) source_mesh) = ((V1, F1, N1, U1), p1)"
    by (cases "load_mesh e (os_path_join (script_folder e) source_mesh)") auto
  obtain V2 F2 N2 U2 p2 where
    tgt: "load_mesh e (os_path_join (script_folder e) target_mesh) = ((V2, F2, N2, U2), p2)"
    by (cases "load_mesh e (os_path_join (script_folder e) target_mesh)") auto
  obtain matched pw where
    m: "find_matches_closest_surface e V1 F1 N1 V2 F2 N2 (replicate (length V1) [3 / 10, 7 / 10])
             (5 / 100 * bounding_box_diagonal e V2 * (5 / 100 * bounding_box_diagonal e V2)) 30
           = (matched, pw)"
    by (cases "find_matches_closest_surface e V1 F1 N1 V2 F2 N2 (replicate (length V1) [3 / 10, 7 / 10])
             (5 / 100 * bounding_box_diagonal e V2 * (5 / 100 * bounding_box_diagonal e V2)) 30") auto
  obtain iw ok where i: "inpaint e V2 F2 pw matched = (iw, ok)"
    by (cases "inpaint e V2 F2 pw matched") auto
  from src tgt m i show thesis by (rule that)
qed

lemma first_calls:
  assumes "load_mesh e (os_path_join (script_folder e) source_mesh) = ((V1, F1, N1, U1), p1)"
      and "load_mesh e (os_path_join (script_folder e) target_mesh) = ((V2, F2, N2, U2), p2)"
      and "find_matches_closest_surface e V1 F1 N1 V2 F2 N2 (replicate (length V1) [3 / 10, 7 / 10])
             (5 / 100 * bounding_box_diagonal e V2 * (5 / 100 * bounding_box_diagonal e V2)) 30
           = (matched, pw)"
  shows "take 2 (stage_calls (fst (main e source_mesh target_mesh output_file))) =
     [CallMatcher V1 F1 N1 V2 F2 N2 (replicate (length V1) [3 / 10, 7 / 10])
        (5 / 100 * bounding_box_diagonal e V2 * (5 / 100 * bounding_box_diagonal e V2)) 30,
      CallInpaint V2 F2 pw matched]"
proof -
  obtain iw ok where i: "inpaint e V2 F2 pw matched = (iw, ok)"
    by (cases "inpaint e V2 F2 pw matched") auto
  show ?thesis
    unfolding main_stage_calls [OF assms i] by simp
qed

lemma main_gates_settings:
  assumes tgt: "load_mesh e (os_path_join (script_folder e) target_mesh) = ((V2, F2, N2, U2), p2)"
  shows "matcher_gates (fst (main e source_mesh target_mesh output_file)) =
           [(5 / 100 * bounding_box_diagonal e V2 * (5 / 100 * bounding_box_diagonal e V2), 30)]"
    and "smooth_settings (fst (main e source_mesh target_mesh output_file)) = [] \<or>
         smooth_settings (fst (main e source_mesh target_mesh output_file)) =
           [(5 / 100 * bounding_box_diagonal e V2, 10, 2 / 10)]"
    and "snd (main e source_mesh target_mesh output_file) = Returned \<Longrightarrow>
         smooth_settings (fst (main e source_mesh target_mesh output_file)) =
           [(5 / 100 * bounding_box_diagonal e V2, 10, 2 / 10)]"
proof -
  obtain V1 F1 N1 U1 p1 V2' F2' N2' U2' p2' matched pw iw ok where
    src: "load_mesh e (os_path_join (script_folder e) source_mesh) = ((V1, F1, N1, U1), p1)" and
    tgt': "load_mesh e (os_path_join (script_folder e) target_mesh) = ((V2', F2', N2', U2'), p2')" and
    m: "find_matches_closest_surface e V1 F1 N1 V2' F2' N2' (replicate (length V1) [3 / 10, 7 / 10])
          (5 / 100 * bounding_box_diagonal e V2' * (5 / 100 * bounding_box_diagonal e V2')) 30
        = (matched, pw)" and
    i: "inpaint e V2' F2' pw matched = (iw, ok)"
    by (rule run_values)
  from tgt tgt' have eq: "V2' = V2" "F2' = F2" "N2' = N2" "U2' = U2" "p2' = p2" by simp_all
  note calls = main_stage_calls [OF src tgt' m i, of output_file]
  have g: "matcher_gates (fst (main e source_mesh target_mesh output_file)) =
           matcher_gates (stage_calls (fst (main e source_mesh target_mesh output_file)))"
    by (simp only: matcher_gates_stage_calls)
  show "matcher_gates (fst (main e source_mesh target_mesh output_file)) =
           [(5 / 100 * bounding_box_diagonal e V2 * (5 / 100 * bounding_box_diagonal e V2), 30)]"
    unfolding g calls by (simp add: matcher_gates_def eq)
  have s: "smooth_settings (fst (main e source_mesh target_mesh output_file)) =
           smooth_settings (stage_calls (fst (main e source_mesh target_mesh output_file)))"
    by (simp only: smooth_settings_stage_calls)
  show "smooth_settings (fst (main e source_mesh target_mesh output_file)) = [] \<or>
         smooth_settings (fst (main e source_mesh target_mesh output_file)) =
           [(5 / 100 * bounding_box_diagonal e V2, 10, 2 / 10)]"
    unfolding s calls by (simp add: smooth_settings_def eq)
  assume "snd (main e source_mesh target_mesh output_file) = Returned"
  from main_returned [OF src tgt' m i this]
  have "ok \<and> has_column 0 iw \<and> has_column 1 iw" .
  then show "smooth_settings (fst (main e source_mesh target_mesh output_file)) =
           [(5 / 100 * bounding_box_diagonal e V2, 10, 2 / 10)]"
    unfolding s calls by (simp add: smooth_settings_def eq)
qed

lemma index_of_less: "x \<in> set xs \<Longrightarrow> index_of x xs < length xs"
  by (induction xs) auto

lemma index_of_nth: "distinct xs \<Longrightarrow> k < length xs \<Longrightarrow> index_of (xs ! k) xs = k"
proof (induction xs arbitrary: k)
  case Nil
  then show ?case by simp
next
  case (Cons y ys)
  show ?case
  proof (cases k)
    case 0
    then show ?thesis by simp
  next
    case (Suc k')
    with Cons.prems have "k' < length ys" and "ys ! k' \<in> set ys" and "y \<notin> set ys" and "distinct ys"
      by auto
    with Cons.IH [of k'] Suc show ?thesis by auto
  qed
qed

lemma remove_unreferenced_ref_invariant:
  assumes inb: "faces_in_bounds v f"
  shows "case remove_unreferenced_ref v f of (v', f', I, J) \<Rightarrow> mesh_invariant v' f'"
proof -
  define J where "J = filter (referenced f) [0..<length v]"
  define I where "I = map (\<lambda>i. if referenced f i then int (index_of i J) else - 1) [0..<length v]"
  define NF where "NF = map (map (\<lambda>i. I ! nat i)) f"
  define NV where "NV = map (\<lambda>j. v ! j) J"
  have res: "remove_unreferenced_ref v f = (NV, NF, I, map int J)"
    unfolding remove_unreferenced_ref_def Let_def NF_def NV_def I_def J_def by (rule refl)
  have len: "length NV = length J" by (simp add: NV_def)
  have setJ: "\<And>j. j \<in> set J \<longleftrightarrow> j < length v \<and> referenced f j"
    by (auto simp: J_def)
  have dJ: "distinct J" by (simp add: J_def)
  have old: "\<And>face i. face \<in> set f \<Longrightarrow> i \<in> set face \<Longrightarrow> 0 \<le> i \<and> nat i < length v \<and> referenced f (nat i)"
  proof -
    fix face i assume a: "face \<in> set f" "i \<in> set face"
    with inb have b: "0 \<le> i \<and> i < int (length v)"
      by (auto simp: faces_in_bounds_def list_all_iff)
    then have "int (nat i) = i" by simp
    with a have "referenced f (nat i)"
      by (auto simp: referenced_def list_ex_iff)
    with b show "0 \<le> i \<and> nat i < length v \<and> referenced f (nat i)" by auto
  qed
  have new: "\<And>j. j < length v \<Longrightarrow> referenced f j \<Longrightarrow> I ! j = int (index_of j J)"
    by (simp add: I_def)
  have bounds: "faces_in_bounds NV NF"
  proof -
    have "\<And>face i. face \<in> set f \<Longrightarrow> i \<in> set face \<Longrightarrow>
            0 \<le> I ! nat i \<and> I ! nat i < int (length NV)"
    proof -
      fix face i assume a: "face \<in> set f" "i \<in> set face"
      from old [OF a] have o: "nat i < length v" "referenced f (nat i)" by auto
      then have "nat i \<in> set J" by (simp add: setJ)
      then have "index_of (nat i) J < length J" by (rule index_of_less)
      with new [OF o] len show "0 \<le> I ! nat i \<and> I ! nat i < int (length NV)" by simp
    qed
    then show ?thesis
      by (auto simp: faces_in_bounds_def list_all_iff NF_def)
  qed
  have refd: "fully_referenced NV NF"
  proof -
    have "\<And>k. k < length J \<Longrightarrow> referenced NF k"
    proof -
      fix k assume k: "k < length J"
      then have "J ! k \<in> set J" by simp
      then have j: "J ! k < length v" "referenced f (J ! k)" by (simp_all add: setJ)
      from j(2) obtain face where face: "face \<in> set f" "int (J ! k) \<in> set face"
        by (auto simp: referenced_def list_ex_iff)
      have "I ! (J ! k) = int k"
        using new [OF j] index_of_nth [OF dJ k] by simp
      with face(2) have "int k \<in> set (map (\<lambda>i. I ! nat i) face)"
        by (force simp: image_iff)
      with face(1) show "referenced NF k"
        by (auto simp: referenced_def list_ex_iff NF_def)
    qed
    then show ?thesis
      by (simp add: fully_referenced_def list_all_iff len)
  qed
  from bounds refd show ?thesis
    by (simp add: res mesh_invariant_def)
qed

lemma demo_igl_ok: "remove_unreferenced_ok demo_env" "per_vertex_normals_ok demo_env"
  using remove_unreferenced_ref_invariant
  by (simp_all add: remove_unreferenced_ok_def per_vertex_normals_ok_def demo_env_def)

lemma demo_files_ok:
  "file_faces_in_bounds demo_env ''/repo/src/source.obj''"
  "file_faces_in_bounds demo_env ''/repo/src/target.obj''"
  by (simp_all add: file_faces_in_bounds_def faces_in_bounds_def demo_env_def demo_read_obj_def)

lemma load_mesh_clean:
  assumes "remove_unreferenced_ok e" and "file_faces_in_bounds e p"
      and "load_mesh e p = ((V, F, N, U), pr)"
  shows "mesh_invariant V F"
proof -
  obtain v vt vn f ft fnn where r: "read_obj e p = (v, vt, vn, f, ft, fnn)"
    by (cases "read_obj e p") auto
  obtain v' f' I J where c: "remove_unreferenced e v f = (v', f', I, J)"
    by (cases "remove_unreferenced e v f") auto
  from assms(2) r have fb: "faces_in_bounds v f"
    by (simp add: file_faces_in_bounds_def)
  have "case remove_unreferenced e v f of (v', f', I, J) \<Rightarrow> mesh_invariant v' f'"
    by (rule assms(1) [unfolded remove_unreferenced_ok_def, rule_format, OF fb])
  with c have "mesh_invariant v' f'" by simp
  moreover from assms(3) r c have "V = v'" "F = f'"
    by (simp_all add: load_mesh_def Let_def)
  ultimately show ?thesis by simp
qed

lemma main_matcher_meshes:
  assumes "load_mesh e (os_path_join (script_folder e) source_mesh) = ((V1, F1, N1, U1), p1)"
      and "load_mesh e (os_path_join (script_folder e) target_mesh) = ((V2, F2, N2, U2), p2)"
  shows "matcher_meshes (fst (main e source_mesh target_mesh output_file)) = [((V1, F1), (V2, F2))]"
proof -
  obtain matched pw where
    m: "find_matches_closest_surface e V1 F1 N1 V2 F2 N2 (replicate (length V1) [3 / 10, 7 / 10])
             (5 / 100 * bounding_box_diagonal e V2 * (5 / 100 * bounding_box_diagonal e V2)) 30
           = (matched, pw)"
    by (cases "find_matches_closest_surface e V1 F1 N1 V2 F2 N2 (replicate (length V1) [3 / 10, 7 / 10])
             (5 / 100 * bounding_box_diagonal e V2 * (5 / 100 * bounding_box_diagonal e V2)) 30") auto
  obtain iw ok where i: "inpaint e V2 F2 pw matched = (iw, ok)"
    by (cases "inpaint e V2 F2 pw matched") auto
  have g: "matcher_meshes (fst (main e source_mesh target_mesh output_file)) =
           matcher_meshes (stage_calls (fst (main e source_mesh target_mesh output_file)))"
    by (simp only: matcher_meshes_stage_calls)
  show ?thesis
    unfolding g main_stage_calls [OF assms m i] by (simp add: matcher_meshes_def)
qed

lemma match_spec_flag:
  assumes "match_contract nearest sv sf sn sw tv tn" and "i < length tv"
  shows "match_spec nearest sv sf sn sw tv tn thr athr =
           Inr (map fst (map (match_vertex nearest sv sf sn sw thr athr) (zip tv tn)),
                map snd (map (match_vertex nearest sv sf sn sw thr athr) (zip tv tn)))"
    and "map fst (map (match_vertex nearest sv sf sn sw thr athr) (zip tv tn)) ! i =
           (squared_distance (correspond nearest sv sf sn (tv ! i)) \<le> thr \<and>
            angle_degrees (tn ! i) (source_normal (correspond nearest sv sf sn (tv ! i))) \<le> athr)"
proof -
  show "match_spec nearest sv sf sn sw tv tn thr athr =
           Inr (map fst (map (match_vertex nearest sv sf sn sw thr athr) (zip tv tn)),
                map snd (map (match_vertex nearest sv sf sn sw thr athr) (zip tv tn)))"
    using assms(1) by (simp add: match_spec_def Let_def)
  from assms have len: "i < length (zip tv tn)"
    by (simp add: match_contract_def)
  then have "zip tv tn ! i = (tv ! i, tn ! i)" by simp
  with len show "map fst (map (match_vertex nearest sv sf sn sw thr athr) (zip tv tn)) ! i =
           (squared_distance (correspond nearest sv sf sn (tv ! i)) \<le> thr \<and>
            angle_degrees (tn ! i) (source_normal (correspond nearest sv sf sn (tv ! i))) \<le> athr)"
    by (simp add: match_vertex_def Let_def)
qed

lemma probe_run:
  "match_spec first_corner tri_vertices [[0, 1, 2]] tri_normals tri_weights
     probe_vertices probe_normals 1 30 =
   Inr ([True, True, False, False],
        [Some [3 / 10, 7 / 10], Some [3 / 10, 7 / 10], None, None])"
  by (simp add: match_spec_def match_contract_def faces_in_bounds_def first_corner_def
      tri_vertices_def tri_normals_def tri_weights_def probe_vertices_def probe_normals_def
      match_vertex_def correspond_def corner_def bary_mix_def squared_norm_diff_def
      angle_degrees_def dot_def Let_def)

lemma probe_quantities:
  "squared_distance (correspond first_corner tri_vertices [[0, 1, 2]] tri_normals
     (probe_vertices ! 1)) = 1"
  "angle_degrees (probe_normals ! 1)
     (source_normal (correspond first_corner tri_vertices [[0, 1, 2]] tri_normals
        (probe_vertices ! 1))) = 0"
  "squared_distance (correspond first_corner tri_vertices [[0, 1, 2]] tri_normals
     (probe_vertices ! 3)) = 0"
  "angle_degrees (probe_normals ! 3)
     (source_normal (correspond first_corner tri_vertices [[0, 1, 2]] tri_normals
        (probe_vertices ! 3))) = 90"
  by (simp_all add: first_corner_def tri_vertices_def tri_normals_def probe_vertices_def
      probe_normals_def correspond_def corner_def bary_mix_def squared_norm_diff_def
      angle_degrees_def dot_def Let_def)

lemma quad_run:
  "inpaint_spec constant_solver quad_vertices quad_faces quad_provisional quad_matched =
   Inr ([Some [3 / 10, 7 / 10], Some [3 / 10, 7 / 10], Some [3 / 10, 7 / 10],
         Some [3 / 10, 7 / 10]], True)"
  by (simp add: inpaint_spec_def inpaint_contract_def faces_in_bounds_def
      every_component_anchored_def neighbours_def quad_vertices_def quad_faces_def
      quad_provisional_def quad_matched_def constant_solver_def numeral_eq_Suc upt_conv_Cons)

lemma quad_system:
  "build_system quad_faces quad_provisional quad_matched =
   [Dirichlet [3 / 10, 7 / 10], Dirichlet [3 / 10, 7 / 10], Dirichlet [3 / 10, 7 / 10],
    Laplacian [1, 2]]"
  by (simp add: build_system_def neighbours_def quad_faces_def quad_provisional_def
      quad_matched_def upt_conv_Cons)

lemma quad_unanchored:
  "inpaint_spec constant_solver quad_vertices quad_faces [None, None, None, None]
     [False, False, False, False] = Inr ([None, None, None, None], False)"
  by (simp add: inpaint_spec_def inpaint_contract_def faces_in_bounds_def
      every_component_anchored_def neighbours_def quad_vertices_def quad_faces_def
      constant_solver_def numeral_eq_Suc upt_conv_Cons)

section \<open>The example runs, evaluated\<close>

lemma demo_load_source:
  "load_mesh demo_env ''/repo/src/source.obj'' =
     (([[0, 0, 0], [4, 0, 0], [0, 4, 0]], [[0, 1, 2]], [[0, 0, 1], [0, 0, 1], [0, 0, 1]],
       [[0, 0], [1, 1], [1, 0], [0, 1]]),
      [Print ''[Warning] Mesh has unreferenced vertices which were removed''])"
  by (simp add: load_mesh_def demo_env_def demo_read_obj_def remove_unreferenced_ref_def
        referenced_def Let_def)

lemma demo_load_target:
  "load_mesh demo_env ''/repo/src/target.obj'' =
     (([[0, 0, 0], [2, 0, 0], [0, 2, 0]], [[0, 1, 2]], [[0, 0, 1], [0, 0, 1], [0, 0, 1]],
       [[0, 0], [1, 0], [0, 1]]), [])"
  by (simp add: load_mesh_def demo_env_def demo_read_obj_def remove_unreferenced_ref_def
        referenced_def Let_def)

lemma demo_paths:
  "os_path_join (script_folder demo_env) ''source.obj'' = ''/repo/src/source.obj''"
  "os_path_join (script_folder demo_env) ''target.obj'' = ''/repo/src/target.obj''"
  "os_path_join (script_folder demo_env) ''out.json'' = ''/repo/src/out.json''"
  by (simp_all add: os_path_join_def demo_env_def)

lemma failing_load: "load_mesh failing_env p = load_mesh demo_env p"
  by (rule load_mesh_cong) (simp_all add: failing_env_def)

lemma failing_run:
  "main failing_env ''source.obj'' ''target.obj'' ''out.json'' =
   ([PsInit,
     Print ''[Warning] Mesh has unreferenced vertices which were removed'',
     RegisterSurfaceMesh ''SourceMesh'' [[0, 0, 0], [4, 0, 0], [0, 4, 0]] [[0, 1, 2]],
     RegisterSurfaceMesh ''TargetMesh'' [[0, 0, 0], [2, 0, 0], [0, 2, 0]] [[0, 1, 2]],
     AddVectorQuantity ''SourceMesh'' ''Normals'' [[0, 0, 1], [0, 0, 1], [0, 0, 1]],
     AddVectorQuantity ''TargetMesh'' ''Normals'' [[0, 0, 1], [0, 0, 1], [0, 0, 1]],
     CallMatcher [[0, 0, 0], [4, 0, 0], [0, 4, 0]] [[0, 1, 2]] [[0, 0, 1], [0, 0, 1], [0, 0, 1]]
       [[0, 0, 0], [2, 0, 0], [0, 2, 0]] [[0, 1, 2]] [[0, 0, 1], [0, 0, 1], [0, 0, 1]]
       [[3 / 10, 7 / 10], [3 / 10, 7 / 10], [3 / 10, 7 / 10]] 1 30,
     AddScalarQuantity ''TargetMesh'' ''Matched'' (Flags [True, True, True]),
     CallInpaint [[0, 0, 0], [2, 0, 0], [0, 2, 0]] [[0, 1, 2]]
       [[3 / 10, 7 / 10], [3 / 10, 7 / 10], [3 / 10, 7 / 10]] [True, True, True],
     Print ''[Error] Inpainting failed.''],
    Exited 0)"
proof -
  have p: "os_path_join (script_folder failing_env) ''source.obj'' = ''/repo/src/source.obj''"
          "os_path_join (script_folder failing_env) ''target.obj'' = ''/repo/src/target.obj''"
    by (simp_all add: os_path_join_def failing_env_def demo_env_def)
  show ?thesis
    unfolding main_def Let_def p failing_load demo_load_source demo_load_target
    by (simp add: failing_env_def demo_env_def numeral_3_eq_3)
qed

lemma demo_columns:
  "column 0 [[3 / 10, 7 / 10], [3 / 10, 7 / 10], [3 / 10, 7 / 10]] = Inr [3 / 10, 3 / 10, 3 / 10]"
  "column 1 [[3 / 10, 7 / 10], [3 / 10, 7 / 10], [3 / 10, 7 / 10]] = Inr [7 / 10, 7 / 10, 7 / 10]"
  by (simp_all add: column_def has_column_def)

lemma demo_matcher:
  "find_matches_closest_surface demo_env v1 f1 n1 [[0, 0, 0], [2, 0, 0], [0, 2, 0]] f2 n2 w d a =
     ([True, True, True], [[3 / 10, 7 / 10], [3 / 10, 7 / 10], [3 / 10, 7 / 10]])"
  by (simp add: demo_env_def)

lemma demo_inpaint: "inpaint demo_env v f pw [True, True, True] = (pw, True)"
  by (simp add: demo_env_def)

lemma demo_smooth: "smooth demo_env v f iw [True, True, True] dt n al = (iw, [False, False, False])"
  by (simp add: demo_env_def)

lemma demo_threshold: "bounding_box_diagonal demo_env v = 20"
  by (simp add: demo_env_def)

lemma demo_run:
  "main demo_env ''source.obj'' ''target.obj'' ''out.json'' =
   ([PsInit,
     Print ''[Warning] Mesh has unreferenced vertices which were removed'',
     RegisterSurfaceMesh ''SourceMesh'' [[0, 0, 0], [4, 0, 0], [0, 4, 0]] [[0, 1, 2]],
     RegisterSurfaceMesh ''TargetMesh'' [[0, 0, 0], [2, 0, 0], [0, 2, 0]] [[0, 1, 2]],
     AddVectorQuantity ''SourceMesh'' ''Normals'' [[0, 0, 1], [0, 0, 1], [0, 0, 1]],
     AddVectorQuantity ''TargetMesh'' ''Normals'' [[0, 0, 1], [0, 0, 1], [0, 0, 1]],
     CallMatcher [[0, 0, 0], [4, 0, 0], [0, 4, 0]] [[0, 1, 2]] [[0, 0, 1], [0, 0, 1], [0, 0, 1]]
       [[0, 0, 0], [2, 0, 0], [0, 2, 0]] [[0, 1, 2]] [[0, 0, 1], [0, 0, 1], [0, 0, 1]]
       [[3 / 10, 7 / 10], [3 / 10, 7 / 10], [3 / 10, 7 / 10]] 1 30,
     AddScalarQuantity ''TargetMesh'' ''Matched'' (Flags [True, True, True]),
     CallInpaint [[0, 0, 0], [2, 0, 0], [0, 2, 0]] [[0, 1, 2]]
       [[3 / 10, 7 / 10], [3 / 10, 7 / 10], [3 / 10, 7 / 10]] [True, True, True],
     AddScalarQuantity ''TargetMesh'' ''Bone1'' (Values [3 / 10, 3 / 10, 3 / 10]),
     AddScalarQuantity ''TargetMesh'' ''Bone2'' (Values [7 / 10, 7 / 10, 7 / 10]),
     CallSmooth [[0, 0, 0], [2, 0, 0], [0, 2, 0]] [[0, 1, 2]]
       [[3 / 10, 7 / 10], [3 / 10, 7 / 10], [3 / 10, 7 / 10]] [True, True, True] 1 10 (2 / 10),
     AddScalarQuantity ''TargetMesh'' ''VertexIDsToSmooth'' (Flags [False, False, False]),
     AddScalarQuantity ''TargetMesh'' ''SmoothedBone1'' (Values [3 / 10, 3 / 10, 3 / 10]),
     AddScalarQuantity ''TargetMesh'' ''SmoothedBone2'' (Values [7 / 10, 7 / 10, 7 / 10]),
     WriteFile ''/repo/src/out.json''
       (JDict
         [(''vertices'', JList [JList [JFloat 0, JFloat 0, JFloat 0],
                                JList [JFloat 2, JFloat 0, JFloat 0],
                                JList [JFloat 0, JFloat 2, JFloat 0]]),
          (''faces'', JList [JList [JInt 0, JInt 1, JInt 2]]),
          (''normals'', JList [JList [JFloat 0, JFloat 0, JFloat 1],
                               JList [JFloat 0, JFloat 0, JFloat 1],
                               JList [JFloat 0, JFloat 0, JFloat 1]]),
          (''uvs'', JList [JList [JFloat 0, JFloat 0], JList [JFloat 1, JFloat 0],
                           JList [JFloat 0, JFloat 1]])]),
     PsShow],
    Returned)"
proof -
  have src: "load_mesh demo_env (os_path_join (script_folder demo_env) ''source.obj'') =
     (([[0, 0, 0], [4, 0, 0], [0, 4, 0]], [[0, 1, 2]], [[0, 0, 1], [0, 0, 1], [0, 0, 1]],
       [[0, 0], [1, 1], [1, 0], [0, 1]]),
      [Print ''[Warning] Mesh has unreferenced vertices which were removed''])"
    by (simp only: demo_paths demo_load_source)
  have tgt: "load_mesh demo_env (os_path_join (script_folder demo_env) ''target.obj'') =
     (([[0, 0, 0], [2, 0, 0], [0, 2, 0]], [[0, 1, 2]], [[0, 0, 1], [0, 0, 1], [0, 0, 1]],
       [[0, 0], [1, 0], [0, 1]]), [])"
    by (simp only: demo_paths demo_load_target)
  have run: "main demo_env ''source.obj'' ''target.obj'' ''out.json'' =
     after_inpaint demo_env
       (PsInit # [Print ''[Warning] Mesh has unreferenced vertices which were removed''] @ [] @
        [RegisterSurfaceMesh ''SourceMesh'' [[0, 0, 0], [4, 0, 0], [0, 4, 0]] [[0, 1, 2]],
         RegisterSurfaceMesh ''TargetMesh'' [[0, 0, 0], [2, 0, 0], [0, 2, 0]] [[0, 1, 2]],
         AddVectorQuantity ''SourceMesh'' ''Normals'' [[0, 0, 1], [0, 0, 1], [0, 0, 1]],
         AddVectorQuantity ''TargetMesh'' ''Normals'' [[0, 0, 1], [0, 0, 1], [0, 0, 1]],
         CallMatcher [[0, 0, 0], [4, 0, 0], [0, 4, 0]] [[0, 1, 2]] [[0, 0, 1], [0, 0, 1], [0, 0, 1]]
           [[0, 0, 0], [2, 0, 0], [0, 2, 0]] [[0, 1, 2]] [[0, 0, 1], [0, 0, 1], [0, 0, 1]]
           (replicate (length [[0, 0, 0], [4, 0, 0], [0, 4, 0::real]]) [3 / 10, 7 / 10])
           (5 / 100 * bounding_box_diagonal demo_env [[0, 0, 0], [2, 0, 0], [0, 2, 0]] *
            (5 / 100 * bounding_box_diagonal demo_env [[0, 0, 0], [2, 0, 0], [0, 2, 0]])) 30,
         AddScalarQuantity ''TargetMesh'' ''Matched'' (Flags [True, True, True]),
         CallInpaint [[0, 0, 0], [2, 0, 0], [0, 2, 0]] [[0, 1, 2]]
           [[3 / 10, 7 / 10], [3 / 10, 7 / 10], [3 / 10, 7 / 10]] [True, True, True]])
       (script_folder demo_env) ''out.json''
       [[0, 0, 0], [2, 0, 0], [0, 2, 0]] [[0, 1, 2]] [[0, 0, 1], [0, 0, 1], [0, 0, 1]]
       [[0, 0], [1, 0], [0, 1]] [True, True, True]
       [[3 / 10, 7 / 10], [3 / 10, 7 / 10], [3 / 10, 7 / 10]]
       (5 / 100 * bounding_box_diagonal demo_env [[0, 0, 0], [2, 0, 0], [0, 2, 0]])"
    by (rule main_succeeded [OF src tgt demo_matcher demo_inpaint])
  show ?thesis
    unfolding run
      after_inpaint_ok [OF demo_columns(1) demo_columns(2) demo_smooth demo_columns(1) demo_columns(2)]
    by (simp add: demo_threshold demo_paths tolist_float_def tolist_int_def numeral_3_eq_3)
qed

section \<open>Properties of \<^verbatim>\<open>load_mesh\<close>\<close>

text \<open>
  C10. The removal of unreferenced vertices in \<^verbatim>\<open>load_mesh\<close> changes the vertex and
  face arrays only: the uv array returned is the \<^verbatim>\<open>vt\<close> array that
  \<^verbatim>\<open>read_obj\<close> read from the file, whatever \<^verbatim>\<open>remove_unreferenced\<close> does, so it is
  neither modified nor renumbered when vertices are removed.
\<close>

theorem load_mesh_uvs_as_read:
  "snd (snd (snd (fst (load_mesh e mesh_path)))) = fst (snd (read_obj e mesh_path)) \<and>
   snd (snd (snd (fst (load_mesh (e\<lparr>remove_unreferenced := r\<rparr>) mesh_path)))) =
     snd (snd (snd (fst (load_mesh e mesh_path))))"
  by (simp add: load_mesh_def Let_def split: prod.splits)

text \<open>
  On the source file of the example one of four vertices is removed, and the four uv rows
  of the file come back as they are.
\<close>

theorem load_mesh_uvs_as_read_witness:
  "snd (snd (snd (fst (load_mesh demo_env ''/repo/src/source.obj'')))) =
     [[0, 0], [1, 1], [1, 0], [0, 1]] \<and>
   length (fst (fst (load_mesh demo_env ''/repo/src/source.obj''))) = 3"
proof -
  have "snd (snd (snd (fst (load_mesh demo_env ''/repo/src/source.obj'')))) =
        fst (snd (read_obj demo_env ''/repo/src/source.obj''))"
    using load_mesh_uvs_as_read [of demo_env "''/repo/src/source.obj''"] by (rule conjunct1)
  also have "\<dots> = [[0, 0], [1, 1], [1, 0], [0, 1]]"
    by (simp add: demo_env_def demo_read_obj_def)
  finally have uv: "snd (snd (snd (fst (load_mesh demo_env ''/repo/src/source.obj'')))) =
     [[0, 0], [1, 1], [1, 0], [0, 1]]" .
  have "length (fst (fst (load_mesh demo_env ''/repo/src/source.obj''))) = 3"
    by (simp add: load_mesh_def demo_env_def demo_read_obj_def remove_unreferenced_ref_def
        referenced_def Let_def)
  with uv show ?thesis by simp
qed

section \<open>Properties of \<^verbatim>\<open>main\<close>\<close>

text \<open>
  C1. When the call of \<^verbatim>\<open>inpaint\<close> that \<^verbatim>\<open>main\<close> makes returns
  \<^verbatim>\<open>success = False\<close>, the failure is a returned value and \<^verbatim>\<open>main\<close> handles it:
  the last thing it does is print \<^verbatim>\<open>[Error] Inpainting failed.\<close>, the run ends with
  \<^verbatim>\<open>exit(0)\<close>, and no event of the run is a call of \<^verbatim>\<open>smooth\<close> or the writing of a
  file. The only way the run ends in the model is by \<^verbatim>\<open>main\<close>'s own \<^verbatim>\<open>exit\<close>; the
  stage functions return values.
\<close>

theorem inpaint_failure_aborts:
  assumes call: "CallInpaint v f w m \<in> set (fst (main e source_mesh target_mesh output_file))"
      and fail: "\<not> snd (inpaint e v f w m)"
  shows "snd (main e source_mesh target_mesh output_file) = Exited 0 \<and>
         last (fst (main e source_mesh target_mesh output_file)) =
           Print ''[Error] Inpainting failed.'' \<and>
         list_all (\<lambda>ev. \<not> is_smooth_call ev \<and> \<not> is_write ev)
           (fst (main e source_mesh target_mesh output_file))"
proof -
  obtain V1 F1 N1 U1 p1 V2 F2 N2 U2 p2 matched pw iw ok where
    src: "load_mesh e (os_path_join (script_folder e) source_mesh) = ((V1, F1, N1, U1), p1)" and
    tgt: "load_mesh e (os_path_join (script_folder e) target_mesh) = ((V2, F2, N2, U2), p2)" and
    m: "find_matches_closest_surface e V1 F1 N1 V2 F2 N2 (replicate (length V1) [3 / 10, 7 / 10])
          (5 / 100 * bounding_box_diagonal e V2 * (5 / 100 * bounding_box_diagonal e V2)) 30
        = (matched, pw)" and
    i: "inpaint e V2 F2 pw matched = (iw, ok)"
    by (rule run_values)
  from call have "CallInpaint v f w m \<in> set (stage_calls (fst (main e source_mesh target_mesh output_file)))"
    by (simp add: stage_calls_def)
  then have "CallInpaint v f w m = CallInpaint V2 F2 pw matched"
    unfolding main_stage_calls [OF src tgt m i] by (simp split: if_splits)
  with fail i have i': "inpaint e V2 F2 pw matched = (iw, False)" by simp
  note q1 = printed_plain [OF src] and q2 = printed_plain [OF tgt]
  show ?thesis
    by (simp add: main_failed [OF src tgt m i'] q1 q2)
qed

text \<open>The run with the failing inpainter of the example.\<close>

theorem inpaint_failure_aborts_witness:
  "CallInpaint [[0, 0, 0], [2, 0, 0], [0, 2, 0]] [[0, 1, 2]]
     [[3 / 10, 7 / 10], [3 / 10, 7 / 10], [3 / 10, 7 / 10]] [True, True, True]
     \<in> set (fst (main failing_env ''source.obj'' ''target.obj'' ''out.json'')) \<and>
   \<not> snd (inpaint failing_env [[0, 0, 0], [2, 0, 0], [0, 2, 0]] [[0, 1, 2]]
     [[3 / 10, 7 / 10], [3 / 10, 7 / 10], [3 / 10, 7 / 10]] [True, True, True]) \<and>
   snd (main failing_env ''source.obj'' ''target.obj'' ''out.json'') = Exited 0 \<and>
   last (fst (main failing_env ''source.obj'' ''target.obj'' ''out.json'')) =
     Print ''[Error] Inpainting failed.'' \<and>
   list_all (\<lambda>ev. \<not> is_smooth_call ev \<and> \<not> is_write ev)
     (fst (main failing_env ''source.obj'' ''target.obj'' ''out.json''))"
proof -
  have call: "CallInpaint [[0, 0, 0], [2, 0, 0], [0, 2, 0]] [[0, 1, 2]]
     [[3 / 10, 7 / 10], [3 / 10, 7 / 10], [3 / 10, 7 / 10]] [True, True, True]
     \<in> set (fst (main failing_env ''source.obj'' ''target.obj'' ''out.json''))"
    by (simp add: failing_run)
  have fail: "\<not> snd (inpaint failing_env [[0, 0, 0], [2, 0, 0], [0, 2, 0]] [[0, 1, 2]]
     [[3 / 10, 7 / 10], [3 / 10, 7 / 10], [3 / 10, 7 / 10]] [True, True, True])"
    by (simp add: failing_env_def)
  from call fail inpaint_failure_aborts [OF call fail] show ?thesis by blast
qed

text \<open>
  C2. The stages run in one direction. With the meshes as \<^verbatim>\<open>load_mesh\<close> returns them,
  the stage calls of a run are, in this order: the matcher on the two loaded meshes and the
  source weights; the inpainter on the target mesh with exactly the flags and weights the
  matcher returned; and, when the inpainter succeeded (and its weights have the two bone
  columns the script reads), the smoother on the target mesh with exactly the weights the
  inpainter returned and the same flags. No stage reads the result of a later one: replacing
  the inpainter and the smoother leaves the matcher call as it is, and replacing the smoother
  leaves the matcher and inpainter calls as they are.
\<close>

theorem stages_run_one_way:
  assumes src: "load_mesh e (os_path_join (script_folder e) source_mesh) = ((V1, F1, N1, U1), p1)"
      and tgt: "load_mesh e (os_path_join (script_folder e) target_mesh) = ((V2, F2, N2, U2), p2)"
      and m: "find_matches_closest_surface e V1 F1 N1 V2 F2 N2
                (replicate (length V1) [3 / 10, 7 / 10])
                (5 / 100 * bounding_box_diagonal e V2 * (5 / 100 * bounding_box_diagonal e V2)) 30
              = (matched, interpolated_skin_weights)"
      and i: "inpaint e V2 F2 interpolated_skin_weights matched = (inpainted_weights, success)"
  shows "stage_calls (fst (main e source_mesh target_mesh output_file)) =
           [CallMatcher V1 F1 N1 V2 F2 N2 (replicate (length V1) [3 / 10, 7 / 10])
              (5 / 100 * bounding_box_diagonal e V2 * (5 / 100 * bounding_box_diagonal e V2)) 30,
            CallInpaint V2 F2 interpolated_skin_weights matched] @
           (if success \<and> has_column 0 inpainted_weights \<and> has_column 1 inpainted_weights
            then [CallSmooth V2 F2 inpainted_weights matched
                    (5 / 100 * bounding_box_diagonal e V2) 10 (2 / 10)]
            else []) \<and>
         take 1 (stage_calls (fst (main (e\<lparr>inpaint := inpaint', smooth := smooth'\<rparr>)
                                      source_mesh target_mesh output_file))) =
           take 1 (stage_calls (fst (main e source_mesh target_mesh output_file))) \<and>
         take 2 (stage_calls (fst (main (e\<lparr>smooth := smooth'\<rparr>)
                                      source_mesh target_mesh output_file))) =
           take 2 (stage_calls (fst (main e source_mesh target_mesh output_file)))"
proof -
  let ?e1 = "e\<lparr>inpaint := inpaint', smooth := smooth'\<rparr>"
  let ?e2 = "e\<lparr>smooth := smooth'\<rparr>"
  have l1: "\<And>p. load_mesh ?e1 p = load_mesh e p"
    by (rule load_mesh_cong) simp_all
  have l2: "\<And>p. load_mesh ?e2 p = load_mesh e p"
    by (rule load_mesh_cong) simp_all
  have src1: "load_mesh ?e1 (os_path_join (script_folder ?e1) source_mesh) = ((V1, F1, N1, U1), p1)"
    using src by (simp add: l1)
  have tgt1: "load_mesh ?e1 (os_path_join (script_folder ?e1) target_mesh) = ((V2, F2, N2, U2), p2)"
    using tgt by (simp add: l1)
  have m1: "find_matches_closest_surface ?e1 V1 F1 N1 V2 F2 N2
                (replicate (length V1) [3 / 10, 7 / 10])
                (5 / 100 * bounding_box_diagonal ?e1 V2 * (5 / 100 * bounding_box_diagonal ?e1 V2)) 30
              = (matched, interpolated_skin_weights)"
    using m by simp
  have src2: "load_mesh ?e2 (os_path_join (script_folder ?e2) source_mesh) = ((V1, F1, N1, U1), p1)"
    using src by (simp add: l2)
  have tgt2: "load_mesh ?e2 (os_path_join (script_folder ?e2) target_mesh) = ((V2, F2, N2, U2), p2)"
    using tgt by (simp add: l2)
  have m2: "find_matches_closest_surface ?e2 V1 F1 N1 V2 F2 N2
                (replicate (length V1) [3 / 10, 7 / 10])
                (5 / 100 * bounding_box_diagonal ?e2 V2 * (5 / 100 * bounding_box_diagonal ?e2 V2)) 30
              = (matched, interpolated_skin_weights)"
    using m by simp
  have a: "take 2 (stage_calls (fst (main e source_mesh target_mesh output_file))) =
     [CallMatcher V1 F1 N1 V2 F2 N2 (replicate (length V1) [3 / 10, 7 / 10])
        (5 / 100 * bounding_box_diagonal e V2 * (5 / 100 * bounding_box_diagonal e V2)) 30,
      CallInpaint V2 F2 interpolated_skin_weights matched]"
    by (rule first_calls [OF src tgt m])
  have b: "take 2 (stage_calls (fst (main ?e2 source_mesh target_mesh output_file))) =
     [CallMatcher V1 F1 N1 V2 F2 N2 (replicate (length V1) [3 / 10, 7 / 10])
        (5 / 100 * bounding_box_diagonal e V2 * (5 / 100 * bounding_box_diagonal e V2)) 30,
      CallInpaint V2 F2 interpolated_skin_weights matched]"
    using first_calls [OF src2 tgt2 m2] by simp
  obtain pw' where c: "take 2 (stage_calls (fst (main ?e1 source_mesh target_mesh output_file))) =
     [CallMatcher V1 F1 N1 V2 F2 N2 (replicate (length V1) [3 / 10, 7 / 10])
        (5 / 100 * bounding_box_diagonal e V2 * (5 / 100 * bounding_box_diagonal e V2)) 30,
      pw']"
    using first_calls [OF src1 tgt1 m1] by simp
  have t1: "\<And>xs. take 1 xs = take 1 (take 2 xs)" by simp
  have one: "take 1 (stage_calls (fst (main ?e1 source_mesh target_mesh output_file))) =
           take 1 (stage_calls (fst (main e source_mesh target_mesh output_file)))"
    by (subst t1, subst c, subst (2) t1, subst a) simp
  show ?thesis
    using main_stage_calls [OF src tgt m i] one a b by simp
qed

text \<open>The successful run of the example has the three calls, chained.\<close>

theorem stages_run_one_way_witness:
  "load_mesh demo_env (os_path_join (script_folder demo_env) ''source.obj'') =
     (([[0, 0, 0], [4, 0, 0], [0, 4, 0]], [[0, 1, 2]], [[0, 0, 1], [0, 0, 1], [0, 0, 1]],
       [[0, 0], [1, 1], [1, 0], [0, 1]]),
      [Print ''[Warning] Mesh has unreferenced vertices which were removed'']) \<and>
   load_mesh demo_env (os_path_join (script_folder demo_env) ''target.obj'') =
     (([[0, 0, 0], [2, 0, 0], [0, 2, 0]], [[0, 1, 2]], [[0, 0, 1], [0, 0, 1], [0, 0, 1]],
       [[0, 0], [1, 0], [0, 1]]), []) \<and>
   stage_calls (fst (main demo_env ''source.obj'' ''target.obj'' ''out.json'')) =
     [CallMatcher [[0, 0, 0], [4, 0, 0], [0, 4, 0]] [[0, 1, 2]] [[0, 0, 1], [0, 0, 1], [0, 0, 1]]
        [[0, 0, 0], [2, 0, 0], [0, 2, 0]] [[0, 1, 2]] [[0, 0, 1], [0, 0, 1], [0, 0, 1]]
        [[3 / 10, 7 / 10], [3 / 10, 7 / 10], [3 / 10, 7 / 10]] 1 30,
      CallInpaint [[0, 0, 0], [2, 0, 0], [0, 2, 0]] [[0, 1, 2]]
        [[3 / 10, 7 / 10], [3 / 10, 7 / 10], [3 / 10, 7 / 10]] [True, True, True],
      CallSmooth [[0, 0, 0], [2, 0, 0], [0, 2, 0]] [[0, 1, 2]]
        [[3 / 10, 7 / 10], [3 / 10, 7 / 10], [3 / 10, 7 / 10]] [True, True, True] 1 10 (2 / 10)]"
proof -
  have src: "load_mesh demo_env (os_path_join (script_folder demo_env) ''source.obj'') =
     (([[0, 0, 0], [4, 0, 0], [0, 4, 0]], [[0, 1, 2]], [[0, 0, 1], [0, 0, 1], [0, 0, 1]],
       [[0, 0], [1, 1], [1, 0], [0, 1]]),
      [Print ''[Warning] Mesh has unreferenced vertices which were removed''])"
    by (simp only: demo_paths demo_load_source)
  have tgt: "load_mesh demo_env (os_path_join (script_folder demo_env) ''target.obj'') =
     (([[0, 0, 0], [2, 0, 0], [0, 2, 0]], [[0, 1, 2]], [[0, 0, 1], [0, 0, 1], [0, 0, 1]],
       [[0, 0], [1, 0], [0, 1]]), [])"
    by (simp only: demo_paths demo_load_target)
  from stages_run_one_way [OF src tgt demo_matcher demo_inpaint, THEN conjunct1, of "''out.json''"]
  have "stage_calls (fst (main demo_env ''source.obj'' ''target.obj'' ''out.json'')) =
     [CallMatcher [[0, 0, 0], [4, 0, 0], [0, 4, 0]] [[0, 1, 2]] [[0, 0, 1], [0, 0, 1], [0, 0, 1]]
        [[0, 0, 0], [2, 0, 0], [0, 2, 0]] [[0, 1, 2]] [[0, 0, 1], [0, 0, 1], [0, 0, 1]]
        [[3 / 10, 7 / 10], [3 / 10, 7 / 10], [3 / 10, 7 / 10]] 1 30,
      CallInpaint [[0, 0, 0], [2, 0, 0], [0, 2, 0]] [[0, 1, 2]]
        [[3 / 10, 7 / 10], [3 / 10, 7 / 10], [3 / 10, 7 / 10]] [True, True, True],
      CallSmooth [[0, 0, 0], [2, 0, 0], [0, 2, 0]] [[0, 1, 2]]
        [[3 / 10, 7 / 10], [3 / 10, 7 / 10], [3 / 10, 7 / 10]] [True, True, True] 1 10 (2 / 10)]"
    by (simp add: has_column_def demo_threshold numeral_3_eq_3)
  with src tgt show ?thesis by simp
qed

text \<open>
  C9. One value feeds the matcher's distance gate and the smoother's band distance:
  \<open>distance_threshold\<close> is \<open>0.05\<close> times the bounding box diagonal of the target
  vertices. The matcher is called once, with the square of that value and the angle
  threshold \<open>30\<close>; every call of the smoother gets the value itself, not squared, and a run
  that returns has made exactly one such call.
\<close>

theorem thresholds_from_one_value:
  assumes tgt: "load_mesh e (os_path_join (script_folder e) target_mesh) = ((V2, F2, N2, U2), p2)"
      and dt: "distance_threshold = 5 / 100 * bounding_box_diagonal e V2"
  shows "matcher_gates (fst (main e source_mesh target_mesh output_file)) =
           [(distance_threshold * distance_threshold, 30)] \<and>
         list_all (\<lambda>(d, n, a). d = distance_threshold)
           (smooth_settings (fst (main e source_mesh target_mesh output_file))) \<and>
         (snd (main e source_mesh target_mesh output_file) = Returned \<longrightarrow>
            map fst (smooth_settings (fst (main e source_mesh target_mesh output_file))) =
              [distance_threshold])"
proof -
  note f = main_gates_settings [OF tgt, of source_mesh output_file]
  have a: "matcher_gates (fst (main e source_mesh target_mesh output_file)) =
           [(distance_threshold * distance_threshold, 30)]"
    unfolding dt by (rule f(1))
  have b: "list_all (\<lambda>(d, n, a). d = distance_threshold)
           (smooth_settings (fst (main e source_mesh target_mesh output_file)))"
    unfolding dt using f(2) by auto
  have c: "snd (main e source_mesh target_mesh output_file) = Returned \<longrightarrow>
            map fst (smooth_settings (fst (main e source_mesh target_mesh output_file))) =
              [distance_threshold]"
    unfolding dt using f(3) by simp
  from a b c show ?thesis by simp
qed

text \<open>In the example the diagonal is 20, so the matcher gets \<open>1 * 1\<close> and the smoother \<open>1\<close>.\<close>

theorem thresholds_from_one_value_witness:
  "load_mesh demo_env (os_path_join (script_folder demo_env) ''target.obj'') =
     (([[0, 0, 0], [2, 0, 0], [0, 2, 0]], [[0, 1, 2]], [[0, 0, 1], [0, 0, 1], [0, 0, 1]],
       [[0, 0], [1, 0], [0, 1]]), []) \<and>
   (1::real) = 5 / 100 * bounding_box_diagonal demo_env [[0, 0, 0], [2, 0, 0], [0, 2, 0]] \<and>
   snd (main demo_env ''source.obj'' ''target.obj'' ''out.json'') = Returned \<and>
   matcher_gates (fst (main demo_env ''source.obj'' ''target.obj'' ''out.json'')) = [(1, 30)] \<and>
   map fst (smooth_settings (fst (main demo_env ''source.obj'' ''target.obj'' ''out.json''))) = [1]"
proof -
  have tgt: "load_mesh demo_env (os_path_join (script_folder demo_env) ''target.obj'') =
     (([[0, 0, 0], [2, 0, 0], [0, 2, 0]], [[0, 1, 2]], [[0, 0, 1], [0, 0, 1], [0, 0, 1]],
       [[0, 0], [1, 0], [0, 1]]), [])"
    by (simp only: demo_paths demo_load_target)
  have dt: "(1::real) = 5 / 100 * bounding_box_diagonal demo_env [[0, 0, 0], [2, 0, 0], [0, 2, 0]]"
    by (simp add: demo_threshold)
  have ret: "snd (main demo_env ''source.obj'' ''target.obj'' ''out.json'') = Returned"
    by (simp add: demo_run)
  from thresholds_from_one_value [OF tgt dt, of "''source.obj''" "''out.json''"] ret
  have "matcher_gates (fst (main demo_env ''source.obj'' ''target.obj'' ''out.json'')) = [(1, 30)] \<and>
    map fst (smooth_settings (fst (main demo_env ''source.obj'' ''target.obj'' ''out.json''))) = [1]"
    by simp
  with tgt dt ret show ?thesis by blast
qed

text \<open>
  C5, as claimed: the iteration count and the relaxation factor given to \<^verbatim>\<open>smooth\<close> can
  be chosen for each run. This fails: no run of \<^verbatim>\<open>main\<close>, for any environment and any
  arguments, gives \<^verbatim>\<open>smooth\<close> five iterations and the factor one half.
\<close>

theorem smooth_settings_not_selectable_counterexample:
  "\<not> (\<exists>e source_mesh target_mesh output_file d.
        (d, 5, 1 / 2) \<in> set (smooth_settings (fst (main e source_mesh target_mesh output_file))))"
proof
  assume "\<exists>e source_mesh target_mesh output_file d.
        (d, 5, 1 / 2) \<in> set (smooth_settings (fst (main e source_mesh target_mesh output_file)))"
  then obtain e source_mesh target_mesh output_file d where
    x: "(d, 5, 1 / 2) \<in> set (smooth_settings (fst (main e source_mesh target_mesh output_file)))"
    by blast
  obtain V2 F2 N2 U2 p2 where
    tgt: "load_mesh e (os_path_join (script_folder e) target_mesh) = ((V2, F2, N2, U2), p2)"
    by (cases "load_mesh e (os_path_join (script_folder e) target_mesh)") auto
  from main_gates_settings(2) [OF tgt, of source_mesh output_file] x
  show False by auto
qed

text \<open>
  C5, amended: \<^verbatim>\<open>smooth\<close> takes the iteration count and the relaxation factor as
  arguments, and \<^verbatim>\<open>main\<close> passes the constants \<open>10\<close> and \<open>0.2\<close> in every call it
  makes, whatever its own arguments are; \<open>0.2\<close> lies in the interval from 0 (excluded) to 1
  (included). A run that returns has made exactly one call with these two values.
\<close>

theorem smooth_settings_fixed:
  "list_all (\<lambda>(d, n, a). n = 10 \<and> a = 2 / 10 \<and> 0 < a \<and> a \<le> 1)
     (smooth_settings (fst (main e source_mesh target_mesh output_file))) \<and>
   (snd (main e source_mesh target_mesh output_file) = Returned \<longrightarrow>
      map snd (smooth_settings (fst (main e source_mesh target_mesh output_file))) =
        [(10, 2 / 10)])"
proof -
  obtain V2 F2 N2 U2 p2 where
    tgt: "load_mesh e (os_path_join (script_folder e) target_mesh) = ((V2, F2, N2, U2), p2)"
    by (cases "load_mesh e (os_path_join (script_folder e) target_mesh)") auto
  note f = main_gates_settings [OF tgt, of source_mesh output_file]
  have a: "list_all (\<lambda>(d, n, a). n = 10 \<and> a = 2 / 10 \<and> 0 < a \<and> a \<le> 1)
     (smooth_settings (fst (main e source_mesh target_mesh output_file)))"
    using f(2) by auto
  have b: "snd (main e source_mesh target_mesh output_file) = Returned \<longrightarrow>
      map snd (smooth_settings (fst (main e source_mesh target_mesh output_file))) =
        [(10, 2 / 10)]"
    using f(3) by simp
  from a b show ?thesis by simp
qed

text \<open>The example run returns and has passed \<open>10\<close> and \<open>0.2\<close>.\<close>

theorem smooth_settings_fixed_witness:
  "snd (main demo_env ''source.obj'' ''target.obj'' ''out.json'') = Returned \<and>
   map snd (smooth_settings (fst (main demo_env ''source.obj'' ''target.obj'' ''out.json''))) =
     [(10, 2 / 10)]"
proof -
  have ret: "snd (main demo_env ''source.obj'' ''target.obj'' ''out.json'') = Returned"
    by (simp add: demo_run)
  from smooth_settings_fixed [of demo_env "''source.obj''" "''target.obj''" "''out.json''"] ret
  show ?thesis by blast
qed

text \<open>
  C8. A run writes a file exactly when it returns, and then one file: the dict with the
  four keys \<^verbatim>\<open>vertices\<close>, \<^verbatim>\<open>faces\<close>, \<^verbatim>\<open>normals\<close> and \<^verbatim>\<open>uvs\<close>, in this
  order, holding the vertices, faces, normals and uvs that \<^verbatim>\<open>load_mesh\<close> returned for
  the target mesh. No weights are in it: two runs that return and differ only in the three
  stage functions write the same content.
\<close>

theorem output_is_target_mesh_only:
  assumes tgt: "load_mesh e (os_path_join (script_folder e) target_mesh) = ((V2, F2, N2, U2), p2)"
  shows "written_files (fst (main e source_mesh target_mesh output_file)) =
           (if snd (main e source_mesh target_mesh output_file) = Returned
            then [(os_path_join (script_folder e) output_file,
                   JDict [(''vertices'', tolist_float V2), (''faces'', tolist_int F2),
                          (''normals'', tolist_float N2), (''uvs'', tolist_float U2)])]
            else []) \<and>
         (snd (main e source_mesh target_mesh output_file) = Returned \<and>
          snd (main (e\<lparr>find_matches_closest_surface := matcher', inpaint := inpaint',
                       smooth := smooth'\<rparr>) source_mesh target_mesh output_file) = Returned \<longrightarrow>
          written_files (fst (main (e\<lparr>find_matches_closest_surface := matcher',
                       inpaint := inpaint', smooth := smooth'\<rparr>)
                       source_mesh target_mesh output_file)) =
          written_files (fst (main e source_mesh target_mesh output_file)))"
proof -
  let ?e' = "e\<lparr>find_matches_closest_surface := matcher', inpaint := inpaint', smooth := smooth'\<rparr>"
  have l: "\<And>p. load_mesh ?e' p = load_mesh e p"
    by (rule load_mesh_cong) simp_all
  have tgt': "load_mesh ?e' (os_path_join (script_folder ?e') target_mesh) = ((V2, F2, N2, U2), p2)"
    using tgt by (simp add: l)
  note a = main_written [OF tgt, of source_mesh output_file]
  note b = main_written [OF tgt', of source_mesh output_file]
  have f: "script_folder ?e' = script_folder e" by simp
  show ?thesis
    using a b unfolding f by simp
qed

text \<open>The file written by the example run.\<close>

theorem output_is_target_mesh_only_witness:
  "load_mesh demo_env (os_path_join (script_folder demo_env) ''target.obj'') =
     (([[0, 0, 0], [2, 0, 0], [0, 2, 0]], [[0, 1, 2]], [[0, 0, 1], [0, 0, 1], [0, 0, 1]],
       [[0, 0], [1, 0], [0, 1]]), []) \<and>
   snd (main demo_env ''source.obj'' ''target.obj'' ''out.json'') = Returned \<and>
   written_files (fst (main demo_env ''source.obj'' ''target.obj'' ''out.json'')) =
     [(''/repo/src/out.json'',
       JDict [(''vertices'', JList [JList [JFloat 0, JFloat 0, JFloat 0],
                                    JList [JFloat 2, JFloat 0, JFloat 0],
                                    JList [JFloat 0, JFloat 2, JFloat 0]]),
              (''faces'', JList [JList [JInt 0, JInt 1, JInt 2]]),
              (''normals'', JList [JList [JFloat 0, JFloat 0, JFloat 1],
                                   JList [JFloat 0, JFloat 0, JFloat 1],
                                   JList [JFloat 0, JFloat 0, JFloat 1]]),
              (''uvs'', JList [JList [JFloat 0, JFloat 0], JList [JFloat 1, JFloat 0],
                               JList [JFloat 0, JFloat 1]])])]"
proof -
  have tgt: "load_mesh demo_env (os_path_join (script_folder demo_env) ''target.obj'') =
     (([[0, 0, 0], [2, 0, 0], [0, 2, 0]], [[0, 1, 2]], [[0, 0, 1], [0, 0, 1], [0, 0, 1]],
       [[0, 0], [1, 0], [0, 1]]), [])"
    by (simp only: demo_paths demo_load_target)
  have ret: "snd (main demo_env ''source.obj'' ''target.obj'' ''out.json'') = Returned"
    by (simp add: demo_run)
  from output_is_target_mesh_only [OF tgt, THEN conjunct1, of "''source.obj''" "''out.json''"] ret
  have "written_files (fst (main demo_env ''source.obj'' ''target.obj'' ''out.json'')) =
     [(''/repo/src/out.json'',
       JDict [(''vertices'', JList [JList [JFloat 0, JFloat 0, JFloat 0],
                                    JList [JFloat 2, JFloat 0, JFloat 0],
                                    JList [JFloat 0, JFloat 2, JFloat 0]]),
              (''faces'', JList [JList [JInt 0, JInt 1, JInt 2]]),
              (''normals'', JList [JList [JFloat 0, JFloat 0, JFloat 1],
                                   JList [JFloat 0, JFloat 0, JFloat 1],
                                   JList [JFloat 0, JFloat 0, JFloat 1]]),
              (''uvs'', JList [JList [JFloat 0, JFloat 0], JList [JFloat 1, JFloat 0],
                               JList [JFloat 0, JFloat 1]])])]"
    by (simp add: demo_paths tolist_float_def tolist_int_def)
  with tgt ret show ?thesis by blast
qed

text \<open>
  C6. \<^verbatim>\<open>load_mesh\<close> applies \<^verbatim>\<open>igl.remove_unreferenced\<close> to the vertices and faces
  read from the file, returns its vertices and faces, and prints the warning exactly when
  the number of vertices changed. The meshes given to the matcher are the ones
  \<^verbatim>\<open>load_mesh\<close> returned. So, when \<^verbatim>\<open>igl.remove_unreferenced\<close> does what its
  documentation says and the faces of both files index their vertices, both meshes given to
  the matcher satisfy the invariant: every face index is within the vertex array and every
  vertex is in some face.
\<close>

theorem meshes_cleaned_before_matching:
  assumes ok: "remove_unreferenced_ok e"
      and src_ok: "file_faces_in_bounds e (os_path_join (script_folder e) source_mesh)"
      and tgt_ok: "file_faces_in_bounds e (os_path_join (script_folder e) target_mesh)"
  shows "(case read_obj e p of (v, vt, vn, f, ft, fnn) \<Rightarrow>
            case remove_unreferenced e v f of (v', f', I, J) \<Rightarrow>
              fst (fst (load_mesh e p)) = v' \<and> fst (snd (fst (load_mesh e p))) = f' \<and>
              snd (load_mesh e p) =
                (if length v \<noteq> length v'
                 then [Print ''[Warning] Mesh has unreferenced vertices which were removed'']
                 else [])) \<and>
         matcher_meshes (fst (main e source_mesh target_mesh output_file)) =
           [((fst (fst (load_mesh e (os_path_join (script_folder e) source_mesh))),
              fst (snd (fst (load_mesh e (os_path_join (script_folder e) source_mesh))))),
             (fst (fst (load_mesh e (os_path_join (script_folder e) target_mesh))),
              fst (snd (fst (load_mesh e (os_path_join (script_folder e) target_mesh))))))] \<and>
         list_all (\<lambda>((v1, f1), (v2, f2)). mesh_invariant v1 f1 \<and> mesh_invariant v2 f2)
           (matcher_meshes (fst (main e source_mesh target_mesh output_file)))"
proof -
  obtain V1 F1 N1 U1 p1 where
    src: "load_mesh e (os_path_join (script_folder e) source_mesh) = ((V1, F1, N1, U1), p1)"
    by (cases "load_mesh e (os_path_join (script_folder e) source_mesh)") auto
  obtain V2 F2 N2 U2 p2 where
    tgt: "load_mesh e (os_path_join (script_folder e) target_mesh) = ((V2, F2, N2, U2), p2)"
    by (cases "load_mesh e (os_path_join (script_folder e) target_mesh)") auto
  have a: "case read_obj e p of (v, vt, vn, f, ft, fnn) \<Rightarrow>
            case remove_unreferenced e v f of (v', f', I, J) \<Rightarrow>
              fst (fst (load_mesh e p)) = v' \<and> fst (snd (fst (load_mesh e p))) = f' \<and>
              snd (load_mesh e p) =
                (if length v \<noteq> length v'
                 then [Print ''[Warning] Mesh has unreferenced vertices which were removed'']
                 else [])"
    by (simp add: load_mesh_def Let_def split: prod.splits)
  note b = main_matcher_meshes [OF src tgt, of output_file]
  have c: "mesh_invariant V1 F1" by (rule load_mesh_clean [OF ok src_ok src])
  have d: "mesh_invariant V2 F2" by (rule load_mesh_clean [OF ok tgt_ok tgt])
  from a b c d show ?thesis by (simp add: src tgt)
qed

text \<open>
  In the example the source file has a vertex that no face uses; the stand-in for
  \<^verbatim>\<open>igl.remove_unreferenced\<close> meets the condition, and the matcher gets three vertices
  and the face renumbered.
\<close>

theorem meshes_cleaned_before_matching_witness:
  "remove_unreferenced_ok demo_env \<and>
   file_faces_in_bounds demo_env (os_path_join (script_folder demo_env) ''source.obj'') \<and>
   file_faces_in_bounds demo_env (os_path_join (script_folder demo_env) ''target.obj'') \<and>
   matcher_meshes (fst (main demo_env ''source.obj'' ''target.obj'' ''out.json'')) =
     [(([[0, 0, 0], [4, 0, 0], [0, 4, 0]], [[0, 1, 2]]),
       ([[0, 0, 0], [2, 0, 0], [0, 2, 0]], [[0, 1, 2]]))] \<and>
   mesh_invariant [[0, 0, 0], [4, 0, 0], [0, 4, 0]] [[0, 1, 2]] \<and>
   mesh_invariant [[0, 0, 0], [2, 0, 0], [0, 2, 0]] [[0, 1, 2]] \<and>
   \<not> mesh_invariant [[0, 0, 0], [9, 9, 9], [4, 0, 0], [0, 4, 0]] [[0, 2, 3]]"
proof -
  have ok: "remove_unreferenced_ok demo_env" by (rule demo_igl_ok(1))
  have s: "file_faces_in_bounds demo_env (os_path_join (script_folder demo_env) ''source.obj'')"
    by (simp only: demo_paths demo_files_ok)
  have t: "file_faces_in_bounds demo_env (os_path_join (script_folder demo_env) ''target.obj'')"
    by (simp only: demo_paths demo_files_ok)
  have before: "\<not> mesh_invariant [[0, 0, 0], [9, 9, 9], [4, 0, 0], [0, 4, 0]] [[0, 2, 3]]"
    by (simp add: mesh_invariant_def fully_referenced_def referenced_def upt_conv_Cons)
  note w = meshes_cleaned_before_matching [OF ok s t, of "''/repo/src/source.obj''" "''out.json''"]
  from w have mm: "matcher_meshes (fst (main demo_env ''source.obj'' ''target.obj'' ''out.json'')) =
     [(([[0, 0, 0], [4, 0, 0], [0, 4, 0]], [[0, 1, 2]]),
       ([[0, 0, 0], [2, 0, 0], [0, 2, 0]], [[0, 1, 2]]))]"
    by (simp add: demo_paths demo_load_source demo_load_target)
  from w have "list_all (\<lambda>((v1, f1), (v2, f2)). mesh_invariant v1 f1 \<and> mesh_invariant v2 f2)
           (matcher_meshes (fst (main demo_env ''source.obj'' ''target.obj'' ''out.json'')))"
    by blast
  then have inv: "mesh_invariant [[0, 0, 0], [4, 0, 0], [0, 4, 0]] [[0, 1, 2]] \<and>
   mesh_invariant [[0, 0, 0], [2, 0, 0], [0, 2, 0]] [[0, 1, 2]]"
    unfolding mm by simp
  from ok s t before mm inv show ?thesis by blast
qed

text \<open>
  C7. \<^verbatim>\<open>load_mesh\<close> computes the normals after the removal, from the vertices and faces
  it returns: the normals returned are \<^verbatim>\<open>igl.per_vertex_normals\<close> of the cleaned
  vertices and faces, and, \<^verbatim>\<open>igl.per_vertex_normals\<close> giving one row for each vertex,
  there are as many normals as returned vertices.
\<close>

theorem normals_from_cleaned_mesh:
  assumes ok: "per_vertex_normals_ok e"
      and load: "load_mesh e p = ((v, f, normals, uvs), printed)"
  shows "normals = per_vertex_normals e v f \<and> length normals = length v \<and>
         (v, f) = (case read_obj e p of (v0, vt, vn, f0, ft, fnn) \<Rightarrow>
                     case remove_unreferenced e v0 f0 of (v', f', I, J) \<Rightarrow> (v', f'))"
proof -
  from load have n: "normals = per_vertex_normals e v f"
    by (auto simp: load_mesh_def Let_def split: prod.splits)
  from ok have "length (per_vertex_normals e v f) = length v"
    by (simp add: per_vertex_normals_ok_def)
  with n have l: "length normals = length v" by simp
  from load have "(v, f) = (case read_obj e p of (v0, vt, vn, f0, ft, fnn) \<Rightarrow>
                     case remove_unreferenced e v0 f0 of (v', f', I, J) \<Rightarrow> (v', f'))"
    by (auto simp: load_mesh_def Let_def split: prod.splits)
  with n l show ?thesis by simp
qed

text \<open>The source file of the example: four vertices are read, three are returned, with three normals.\<close>

theorem normals_from_cleaned_mesh_witness:
  "per_vertex_normals_ok demo_env \<and>
   load_mesh demo_env ''/repo/src/source.obj'' =
     (([[0, 0, 0], [4, 0, 0], [0, 4, 0]], [[0, 1, 2]], [[0, 0, 1], [0, 0, 1], [0, 0, 1]],
       [[0, 0], [1, 1], [1, 0], [0, 1]]),
      [Print ''[Warning] Mesh has unreferenced vertices which were removed'']) \<and>
   [[0, 0, 1], [0, 0, 1], [0, 0, 1]] =
     per_vertex_normals demo_env [[0, 0, 0], [4, 0, 0], [0, 4, 0]] [[0, 1, 2]] \<and>
   length [[0, 0, 1], [0, 0, 1], [0, 0, 1::real]] = length [[0, 0, 0], [4, 0, 0], [0, 4, 0::real]]"
proof -
  have ok: "per_vertex_normals_ok demo_env" by (rule demo_igl_ok(2))
  from normals_from_cleaned_mesh [OF ok demo_load_source] ok demo_load_source
  show ?thesis by blast
qed

section \<open>Properties of the matcher of the specification\<close>

text \<open>
  C4. For every target vertex, the matcher of the specification marks the vertex matched
  if and only if both gates pass: the squared distance from the vertex to the closest
  point reported for it is at most the distance threshold, and the angle between the
  vertex normal and the source normal interpolated at that point is at most the angle
  threshold. Both bounds are tight: a vertex whose two quantities equal the thresholds is
  matched, a squared distance above its threshold or an angle above its threshold makes
  the vertex unmatched, and the same holds for the run with any other pair of thresholds
  \<open>thr'\<close>, \<open>athr'\<close> on the same meshes.
\<close>

theorem matched_iff_both_gates:
  assumes run: "match_spec nearest sv sf sn sw tv tn thr athr = Inr (flags, weights)"
      and i: "i < length tv"
      and d: "d2 = squared_distance (correspond nearest sv sf sn (tv ! i))"
      and a: "theta = angle_degrees (tn ! i) (source_normal (correspond nearest sv sf sn (tv ! i)))"
  shows "length flags = length tv \<and>
         flags ! i = (d2 \<le> thr \<and> theta \<le> athr) \<and>
         (d2 = thr \<and> theta = athr \<longrightarrow> flags ! i) \<and>
         (thr < d2 \<longrightarrow> \<not> flags ! i) \<and>
         (athr < theta \<longrightarrow> \<not> flags ! i) \<and>
         (\<exists>flags' weights'.
            match_spec nearest sv sf sn sw tv tn thr' athr' = Inr (flags', weights') \<and>
            flags' ! i = (d2 \<le> thr' \<and> theta \<le> athr'))"
proof -
  from run have contract: "match_contract nearest sv sf sn sw tv tn"
    by (auto simp: match_spec_def split: if_splits)
  note f = match_spec_flag [OF contract i]
  from run f(1) [of thr athr]
  have fl: "flags = map fst (map (match_vertex nearest sv sf sn sw thr athr) (zip tv tn))"
    by simp
  from contract have len: "length flags = length tv"
    by (simp add: fl match_contract_def)
  have iff: "flags ! i = (d2 \<le> thr \<and> theta \<le> athr)"
    unfolding fl d a by (rule f(2))
  have other: "\<exists>flags' weights'.
            match_spec nearest sv sf sn sw tv tn thr' athr' = Inr (flags', weights') \<and>
            flags' ! i = (d2 \<le> thr' \<and> theta \<le> athr')"
    unfolding d a using f(1) [of thr' athr'] f(2) [of thr' athr'] by blast
  from len iff other show ?thesis by auto
qed

text \<open>
  The second probe vertex lies at squared distance 1 above the first corner, with the
  normal of the triangle: with the distance threshold 1 it is matched, and with the
  distance threshold one half it is not.
\<close>

theorem matched_iff_both_gates_witness:
  "match_spec first_corner tri_vertices [[0, 1, 2]] tri_normals tri_weights
     probe_vertices probe_normals 1 30 =
     Inr ([True, True, False, False],
          [Some [3 / 10, 7 / 10], Some [3 / 10, 7 / 10], None, None]) \<and>
   1 < length probe_vertices \<and>
   squared_distance (correspond first_corner tri_vertices [[0, 1, 2]] tri_normals
     (probe_vertices ! 1)) = 1 \<and>
   angle_degrees (probe_normals ! 1)
     (source_normal (correspond first_corner tri_vertices [[0, 1, 2]] tri_normals
        (probe_vertices ! 1))) = 0 \<and>
   [True, True, False, False] ! 1 = ((1::real) \<le> 1 \<and> (0::real) \<le> 30) \<and>
   (\<exists>flags' weights'.
      match_spec first_corner tri_vertices [[0, 1, 2]] tri_normals tri_weights
        probe_vertices probe_normals (1 / 2) 30 = Inr (flags', weights') \<and>
      \<not> flags' ! 1)"
proof -
  have i: "1 < length probe_vertices" by (simp add: probe_vertices_def)
  note w = matched_iff_both_gates [OF probe_run i probe_quantities(1) [symmetric]
      probe_quantities(2) [symmetric], of "1 / 2" 30]
  from w have one: "[True, True, False, False] ! 1 = ((1::real) \<le> 1 \<and> (0::real) \<le> 30)"
    by blast
  from w have "\<exists>flags' weights'.
      match_spec first_corner tri_vertices [[0, 1, 2]] tri_normals tri_weights
        probe_vertices probe_normals (1 / 2) 30 = Inr (flags', weights') \<and>
      flags' ! 1 = ((1::real) \<le> 1 / 2 \<and> (0::real) \<le> 30)"
    by blast
  then have two: "\<exists>flags' weights'.
      match_spec first_corner tri_vertices [[0, 1, 2]] tri_normals tri_weights
        probe_vertices probe_normals (1 / 2) 30 = Inr (flags', weights') \<and>
      \<not> flags' ! 1"
    by simp
  from probe_run i probe_quantities(1) probe_quantities(2) one two show ?thesis by blast
qed

section \<open>Properties of the inpainter of the specification\<close>

text \<open>
  C3. For every target vertex that is matched, the weight the inpainter of the
  specification returns is exactly the provisional weight: the row of the vertex in the
  system is the fixed value, and the returned entry is that value whatever the solver does
  and whether the run succeeds or not. On success every vertex that was unmatched gets a
  defined weight vector, the one the solver computed for it; with real numbers a defined
  vector is a finite one. So after a successful run every vertex has a weight.
\<close>

theorem inpaint_keeps_matched_and_fills:
  assumes run: "inpaint_spec solve tv tf provisionalWeights matchedFlags = Inr (filled, success)"
      and i: "i < length tv"
  shows "length filled = length tv \<and>
         (matchedFlags ! i \<longrightarrow>
            (\<exists>w. provisionalWeights ! i = Some w \<and>
                 build_system tf provisionalWeights matchedFlags ! i = Dirichlet w \<and>
                 filled ! i = Some w)) \<and>
         (success \<and> \<not> matchedFlags ! i \<longrightarrow>
            (\<exists>x. solve (build_system tf provisionalWeights matchedFlags) = Some x \<and>
                 filled ! i = Some (x i))) \<and>
         (success \<longrightarrow> (\<exists>w. filled ! i = Some w))"
proof -
  from run have contract: "inpaint_contract tv tf provisionalWeights matchedFlags"
    by (auto simp: inpaint_spec_def split: if_splits)
  then have lp: "length provisionalWeights = length tv" and lm: "length matchedFlags = length tv"
    by (simp_all add: inpaint_contract_def)
  from contract i have some: "matchedFlags ! i \<longrightarrow> provisionalWeights ! i \<noteq> None"
    by (simp add: inpaint_contract_def list_all_iff)
  have rowi: "matchedFlags ! i \<longrightarrow>
      build_system tf provisionalWeights matchedFlags ! i = Dirichlet (the (provisionalWeights ! i))"
    using i lm by (simp add: build_system_def)
  consider (failed) "filled = provisionalWeights" "\<not> success"
    | (solved) x where "solve (build_system tf provisionalWeights matchedFlags) = Some x"
        "filled = map (\<lambda>v. if matchedFlags ! v then provisionalWeights ! v else Some (x v))
                    [0..<length tv]"
        "success"
    using run contract
    by (auto simp: inpaint_spec_def split: if_splits option.splits)
  then show ?thesis
  proof cases
    case failed
    with lp some rowi show ?thesis by auto
  next
    case solved
    from solved(2) i have fi: "filled ! i = (if matchedFlags ! i then provisionalWeights ! i else Some (x i))"
      by simp
    from solved(2) have "length filled = length tv" by simp
    with fi solved(1) solved(3) some rowi show ?thesis by auto
  qed
qed

text \<open>
  On the two triangles the fourth vertex is unmatched and gets the solver's weights; the
  first vertex is matched and keeps its own.
\<close>

theorem inpaint_keeps_matched_and_fills_witness:
  "inpaint_spec constant_solver quad_vertices quad_faces quad_provisional quad_matched =
     Inr ([Some [3 / 10, 7 / 10], Some [3 / 10, 7 / 10], Some [3 / 10, 7 / 10],
           Some [3 / 10, 7 / 10]], True) \<and>
   0 < length quad_vertices \<and> 3 < length quad_vertices \<and>
   quad_matched ! 0 \<and> \<not> quad_matched ! 3 \<and> quad_provisional ! 3 = None \<and>
   (\<exists>w. quad_provisional ! 0 = Some w \<and>
        build_system quad_faces quad_provisional quad_matched ! 0 = Dirichlet w \<and>
        [Some [3 / 10, 7 / 10], Some [3 / 10, 7 / 10], Some [3 / 10, 7 / 10],
         Some [3 / 10, 7 / 10 :: real]] ! 0 = Some w) \<and>
   (\<exists>x. constant_solver (build_system quad_faces quad_provisional quad_matched) = Some x \<and>
        [Some [3 / 10, 7 / 10], Some [3 / 10, 7 / 10], Some [3 / 10, 7 / 10],
         Some [3 / 10, 7 / 10 :: real]] ! 3 = Some (x 3))"
proof -
  have i0: "0 < length quad_vertices" and i3: "3 < length quad_vertices"
    by (simp_all add: quad_vertices_def)
  have m0: "quad_matched ! 0" and m3: "\<not> quad_matched ! 3" and p3: "quad_provisional ! 3 = None"
    by (simp_all add: quad_matched_def quad_provisional_def)
  from inpaint_keeps_matched_and_fills [OF quad_run i0] m0
  have a: "\<exists>w. quad_provisional ! 0 = Some w \<and>
        build_system quad_faces quad_provisional quad_matched ! 0 = Dirichlet w \<and>
        [Some [3 / 10, 7 / 10], Some [3 / 10, 7 / 10], Some [3 / 10, 7 / 10],
         Some [3 / 10, 7 / 10 :: real]] ! 0 = Some w"
    by blast
  from inpaint_keeps_matched_and_fills [OF quad_run i3] m3
  have b: "\<exists>x. constant_solver (build_system quad_faces quad_provisional quad_matched) = Some x \<and>
        [Some [3 / 10, 7 / 10], Some [3 / 10, 7 / 10], Some [3 / 10, 7 / 10],
         Some [3 / 10, 7 / 10 :: real]] ! 3 = Some (x 3)"
    by blast
  from quad_run i0 i3 m0 m3 p3 a b show ?thesis by blast
qed

end
